theory Spec2Isabelle
  imports Complex_Main "HOL-Library.Sublist"
begin

section \<open>JavaScript numbers\<close>

text \<open>
  The server is TypeScript; every number in it is an IEEE double. The model takes a
  finite number to be the real it denotes. A number that need not be one, a coordinate
  or a value that \<open>parseFloat\<close> reads from a text, is a \<open>real option\<close>: \<open>None\<close> is
  NaN, and also \<open>undefined\<close>, which arithmetic turns into NaN and of which every
  comparison is false, as of NaN (the text \<open>Infinity\<close>, for which alone \<open>parseFloat\<close>
  is infinite, is left out). The threshold, which the route handler divides by, is a
  \<open>jsnum\<close>, so that a division by zero gives the infinity or the NaN that JavaScript
  gives.

  Arithmetic on whole numbers of the sizes met here is exact in doubles, and so are
  \<open>Math.round\<close>, \<open>Math.min\<close> and \<open>Math.max\<close>. A sum, product or quotient of
  samples is not: it is the exact result rounded to the nearest double. That rounding
  is the parameter \<open>fl\<close> of the forecast engine, which the model takes as it comes.
  The percentage of the handler, a quotient of whole numbers, and the trigonometry of
  the distance are taken exactly.
\<close>

datatype jsnum = Num real | NegZero | PosInf | NegInf | NaN

text \<open>\<open>Math.round\<close> takes the nearest integer and rounds a half towards plus infinity.\<close>

definition Math_round :: "real \<Rightarrow> int" where
  "Math_round x = \<lfloor>x + 1 / 2\<rfloor>"

text \<open>\<open>Math.round\<close> of a number that may be NaN, and the comparisons with one.\<close>

definition Math_round_num :: "real option \<Rightarrow> int option" where
  "Math_round_num x = map_option Math_round x"

definition js_gt :: "real option \<Rightarrow> real \<Rightarrow> bool" where
  "js_gt x c = (case x of None \<Rightarrow> False | Some v \<Rightarrow> c < v)"

definition js_lt :: "real option \<Rightarrow> real \<Rightarrow> bool" where
  "js_lt x c = (case x of None \<Rightarrow> False | Some v \<Rightarrow> v < c)"

definition js_le :: "real option \<Rightarrow> real \<Rightarrow> bool" where
  "js_le x c = (case x of None \<Rightarrow> False | Some v \<Rightarrow> v \<le> c)"

text \<open>
  The rounding of the doubles themselves: to the nearest double, a tie to the one whose
  significand (of 53 bits) is even. It is given for the numbers within the range of the
  normal doubles (the overflow to an infinity and the subnormal numbers are left out).
  The engine below is not tied to it, since it takes its rounding as a parameter; this
  one serves to follow an example in doubles.
\<close>

definition round_half_even :: "real \<Rightarrow> int" where
  "round_half_even x =
     (let f = \<lfloor>x\<rfloor>; r = x - real_of_int f
      in if r < 1 / 2 then f else if 1 / 2 < r then f + 1 else if even f then f else f + 1)"

definition fl64 :: "real \<Rightarrow> real" where
  "fl64 x =
     (if x = 0 then 0
      else let ulp = 2 powr (real_of_int \<lfloor>log 2 \<bar>x\<bar>\<rfloor> - 52)
           in real_of_int (round_half_even (x / ulp)) * ulp)"

text \<open>\<open>x + y\<close> and \<open>x - y\<close> of numbers that may be NaN.\<close>

definition num_plus :: "real option \<Rightarrow> real option \<Rightarrow> real option" where
  "num_plus x y = (case (x, y) of (Some a, Some b) \<Rightarrow> Some (a + b) | _ \<Rightarrow> None)"

definition num_minus :: "real option \<Rightarrow> real option \<Rightarrow> real option" where
  "num_minus x y = (case (x, y) of (Some a, Some b) \<Rightarrow> Some (a - b) | _ \<Rightarrow> None)"

text \<open>
  \<open>a / b\<close> for a finite \<open>a\<close>. The sign of a zero result cannot be seen by what the
  handler does with it next (a product with 100 and a comparison), so a zero result is
  \<open>Num 0\<close>; the sign of a zero divisor can be seen, and is kept.
\<close>

fun js_div :: "real \<Rightarrow> jsnum \<Rightarrow> jsnum" where
  "js_div a (Num b) =
     (if b = 0 then (if a = 0 then NaN else if 0 < a then PosInf else NegInf)
      else Num (a / b))"
| "js_div a NegZero = (if a = 0 then NaN else if 0 < a then NegInf else PosInf)"
| "js_div a PosInf = Num 0"
| "js_div a NegInf = Num 0"
| "js_div a NaN = NaN"

text \<open>\<open>x * 100\<close>.\<close>

fun js_times100 :: "jsnum \<Rightarrow> jsnum" where
  "js_times100 (Num x) = Num (x * 100)"
| "js_times100 NegZero = NegZero"
| "js_times100 PosInf = PosInf"
| "js_times100 NegInf = NegInf"
| "js_times100 NaN = NaN"

text \<open>\<open>x >= c\<close> for a finite \<open>c\<close>: every comparison with NaN is false.\<close>

fun js_ge :: "jsnum \<Rightarrow> real \<Rightarrow> bool" where
  "js_ge (Num x) c = (c \<le> x)"
| "js_ge NegZero c = (c \<le> 0)"
| "js_ge PosInf c = True"
| "js_ge NegInf c = False"
| "js_ge NaN c = False"

section \<open>Snow load and risk classification (the \<open>/api/snow-data\<close> handler)\<close>

datatype risk = safe | moderate | critical

text \<open>\<open>const currentLoad = Math.round(snowResult.depth * 2.5)\<close>\<close>

definition currentLoad_of :: "int \<Rightarrow> int" where
  "currentLoad_of d = Math_round (real_of_int d * 2.5)"

text \<open>
  The query parameter as Express hands it over: absent, a string, or an array or object
  that coerces to a string (given by that string). Only an absent parameter and the
  empty string are falsy.
\<close>

datatype query = Absent | Text string | Composite string

fun truthy :: "query \<Rightarrow> bool" where
  "truthy Absent = False"
| "truthy (Text s) = (s \<noteq> [])"
| "truthy (Composite s) = True"

fun coerced :: "query \<Rightarrow> string" where
  "coerced Absent = ''undefined''"
| "coerced (Text s) = s"
| "coerced (Composite s) = s"

text \<open>
  \<open>const userThreshold = threshold ? parseInt(threshold as string) : 140\<close>.
  \<open>parseInt\<close> is the platform's; it is a parameter of the model.
\<close>

definition userThreshold_of :: "(string \<Rightarrow> jsnum) \<Rightarrow> query \<Rightarrow> jsnum" where
  "userThreshold_of parseInt threshold =
     (if truthy threshold then parseInt (coerced threshold) else Num 140)"

text \<open>\<open>const percentage = (currentLoad / userThreshold) * 100\<close>\<close>

definition percentage_of :: "int \<Rightarrow> jsnum \<Rightarrow> jsnum" where
  "percentage_of load thr = js_times100 (js_div (real_of_int load) thr)"

text \<open>The chain that sets \<open>status\<close> and \<open>statusText\<close>.\<close>

definition status_of :: "jsnum \<Rightarrow> risk \<times> string" where
  "status_of percentage =
     (if js_ge percentage 100 then (critical, ''Kriittinen'')
      else if js_ge percentage 80 then (moderate, ''Kohtalainen riski'')
      else (safe, ''Turvallinen''))"

text \<open>\<open>loadPercentage >= 60 && forecastResult.hasThawConditions\<close>\<close>

definition showHeavyWetSnowWarning_of :: "int \<Rightarrow> jsnum \<Rightarrow> bool \<Rightarrow> bool" where
  "showHeavyWetSnowWarning_of load thr hasThaw =
     (js_ge (percentage_of load thr) 60 \<and> hasThaw)"

section \<open>Promises, exceptions and the upstream services\<close>

text \<open>
  An \<open>async\<close> function returns a promise; awaited, the promise either rejects with an
  exception (\<open>Inl\<close>) or fulfils with a result (\<open>Inr\<close>). A \<open>try\<close> block is the
  computation of its body, \<open>catch\<close> a handler applied to a rejection.
\<close>

datatype exn = NetworkError | BodyError | TypeError | RangeError

type_synonym 'a promise = "exn + 'a"

definition await :: "'a promise \<Rightarrow> ('a \<Rightarrow> 'b promise) \<Rightarrow> 'b promise" where
  "await p k = (case p of Inl e \<Rightarrow> Inl e | Inr x \<Rightarrow> k x)"

definition try_catch :: "'a promise \<Rightarrow> (exn \<Rightarrow> 'a promise) \<Rightarrow> 'a promise" where
  "try_catch body handler = (case body of Inl e \<Rightarrow> handler e | Inr x \<Rightarrow> Inr x)"

text \<open>
  What \<open>fetch(url)\<close> yields: the promise rejects (no connection), or it fulfils with a
  response that carries \<open>response.ok\<close> and the outcome of reading its body
  (\<open>response.text()\<close>, \<open>response.json()\<close>), which can reject too. The body is given
  as the matches the source's patterns find in it.
\<close>

datatype 'b response = Response bool "'b promise"

type_synonym 'b fetched = "'b response promise"

section \<open>Distance\<close>

definition Math_atan2 :: "real \<Rightarrow> real \<Rightarrow> real" where
  "Math_atan2 y x =
     (if 0 < x then arctan (y / x)
      else if x < 0 then (if 0 \<le> y then arctan (y / x) + pi else arctan (y / x) - pi)
      else if 0 < y then pi / 2
      else if y < 0 then - pi / 2
      else 0)"

text \<open>
  The Haversine formula. A coordinate that is not a number makes the distance NaN, and
  so does a square root of a negative number (for latitudes between -90 and 90 both
  roots are of numbers in [0, 1]).
\<close>

definition calculateDistance ::
  "real option \<Rightarrow> real option \<Rightarrow> real option \<Rightarrow> real option \<Rightarrow> real option"
where
  "calculateDistance lat1 lon1 lat2 lon2 =
     (case (lat1, lon1, lat2, lon2) of
        (Some la1, Some lo1, Some la2, Some lo2) \<Rightarrow>
          (let R = 6371;
               dLat = (la2 - la1) * pi / 180;
               dLon = (lo2 - lo1) * pi / 180;
               a = sin (dLat / 2) * sin (dLat / 2) +
                   cos (la1 * pi / 180) * cos (la2 * pi / 180) *
                   sin (dLon / 2) * sin (dLon / 2)
           in if a < 0 \<or> 1 < a then None
              else Some (R * (2 * Math_atan2 (sqrt a) (sqrt (1 - a)))))
      | _ \<Rightarrow> None)"

section \<open>Geo resolver\<close>

record PostalCodeInfo =
  lat :: "real option"
  lon :: "real option"
  city :: string

text \<open>
  The geocoding service answers with a JSON array of candidates. The handler reads the
  first one: its \<open>lat\<close> and \<open>lon\<close>, as \<open>parseFloat\<close> reads them, and its
  \<open>display_name\<close>, which is missing or empty (\<open>NoName\<close>), a string (given by its
  comma-separated, trimmed parts) or some other value, on which \<open>split\<close> is not a function.
  A candidate that is \<open>null\<close> has no properties to read.
\<close>

datatype display_name = NoName | NameParts "string list" | NotAString

datatype candidate = NullCandidate | Candidate "real option" "real option" display_name

text \<open>
  \<open>postalCodeMap\<close> and \<open>geocodeCache\<close> are plain objects, read with the postal code of
  the request as the property name. A name that is not a key of the object itself is
  looked up in \<open>Object.prototype\<close>, whose members are functions, and an object for
  \<open>__proto__\<close>: none is \<open>undefined\<close>, all are truthy, none has a \<open>lat\<close>, \<open>lon\<close> or
  \<open>city\<close>. So what the resolver returns is a postal code's entry or such a member.
\<close>

definition Object_prototype :: "string list" where
  "Object_prototype =
     [''constructor'', ''__defineGetter__'', ''__defineSetter__'', ''hasOwnProperty'',
      ''__lookupGetter__'', ''__lookupSetter__'', ''isPrototypeOf'',
      ''propertyIsEnumerable'', ''toString'', ''valueOf'', ''__proto__'',
      ''toLocaleString'']"

datatype resolved = Resolved PostalCodeInfo | Prototype_member

fun lat_of :: "resolved \<Rightarrow> real option" where
  "lat_of (Resolved info) = lat info"
| "lat_of Prototype_member = None"

fun lon_of :: "resolved \<Rightarrow> real option" where
  "lon_of (Resolved info) = lon info"
| "lon_of Prototype_member = None"

fun city_of :: "resolved \<Rightarrow> string option" where
  "city_of (Resolved info) = Some (city info)"
| "city_of Prototype_member = None"

type_synonym geocodeCache = "string \<rightharpoonup> PostalCodeInfo option"

definition Tuntematon :: string where
  "Tuntematon = ''Tuntematon''"

definition geocode_try ::
  "candidate list fetched \<Rightarrow> geocodeCache \<Rightarrow> string \<Rightarrow> (resolved option \<times> geocodeCache) promise"
where
  "geocode_try fetched cache postalCode =
     await fetched (\<lambda>resp. case resp of Response ok js \<Rightarrow>
       if \<not> ok then Inr (None, cache(postalCode \<mapsto> None))
       else await js (\<lambda>data.
         case data of
           [] \<Rightarrow> Inr (None, cache(postalCode \<mapsto> None))
         | result # _ \<Rightarrow>
             (case result of
                NullCandidate \<Rightarrow> Inl TypeError
              | Candidate la lo dn \<Rightarrow>
                  (case dn of
                     NotAString \<Rightarrow> Inl TypeError
                   | NoName \<Rightarrow>
                       (let info = \<lparr>lat = la, lon = lo, city = Tuntematon\<rparr>
                        in Inr (Some (Resolved info), cache(postalCode \<mapsto> Some info)))
                   | NameParts parts \<Rightarrow>
                       (let info = \<lparr>lat = la, lon = lo,
                                    city = (if 2 \<le> length parts then parts ! 1 else Tuntematon)\<rparr>
                        in Inr (Some (Resolved info), cache(postalCode \<mapsto> Some info)))))))"

text \<open>
  \<open>geocodePostalCode\<close>: the cache is the module's state, passed in and returned. What
  \<open>geocodeCache[postalCode]\<close> holds, if it is not \<open>undefined\<close>, is returned without a
  call: a cached entry, a cached miss, or a member of \<open>Object.prototype\<close>.
\<close>

definition geocodePostalCode ::
  "(string \<Rightarrow> candidate list fetched) \<Rightarrow> geocodeCache \<Rightarrow> string \<Rightarrow>
     (resolved option \<times> geocodeCache) promise"
where
  "geocodePostalCode nominatim cache postalCode =
     (case cache postalCode of
        Some hit \<Rightarrow> Inr (map_option Resolved hit, cache)
      | None \<Rightarrow>
          if postalCode \<in> set Object_prototype then Inr (Some Prototype_member, cache)
          else
            try_catch (geocode_try (nominatim postalCode) cache postalCode)
              (\<lambda>e. Inr (None, cache(postalCode \<mapsto> None))))"

text \<open>
  The static table of \<open>getPostalCodeInfo\<close>: its own keys. A letter outside ASCII is
  given by its code.
\<close>

definition postalCodeMap :: "(string \<times> PostalCodeInfo) list" where
  "postalCodeMap = [
   (''70100'', \<lparr>lat = Some 62.8933, lon = Some 27.6783, city = ''Kuopio''\<rparr>),
   (''70110'', \<lparr>lat = Some 62.8950, lon = Some 27.6800, city = ''Kuopio''\<rparr>),
   (''70200'', \<lparr>lat = Some 62.9000, lon = Some 27.6700, city = ''Kuopio''\<rparr>),
   (''70210'', \<lparr>lat = Some 62.8800, lon = Some 27.6900, city = ''Kuopio''\<rparr>),
   (''70300'', \<lparr>lat = Some 62.8700, lon = Some 27.6500, city = ''Kuopio''\<rparr>),
   (''70340'', \<lparr>lat = Some 62.8600, lon = Some 27.6600, city = ''Kuopio''\<rparr>),
   (''70400'', \<lparr>lat = Some 62.9100, lon = Some 27.7000, city = ''Kuopio''\<rparr>),
   (''70420'', \<lparr>lat = Some 62.9200, lon = Some 27.7100, city = ''Kuopio''\<rparr>),
   (''70500'', \<lparr>lat = Some 62.8500, lon = Some 27.6400, city = ''Kuopio''\<rparr>),
   (''70600'', \<lparr>lat = Some 62.8400, lon = Some 27.6200, city = ''Kuopio''\<rparr>),
   (''70700'', \<lparr>lat = Some 62.8300, lon = Some 27.6000, city = ''Kuopio''\<rparr>),
   (''70800'', \<lparr>lat = Some 62.8200, lon = Some 27.5800, city = ''Kuopio''\<rparr>),
   (''70820'', \<lparr>lat = Some 62.8150, lon = Some 27.5700, city = ''Kuopio''\<rparr>),
   (''70840'', \<lparr>lat = Some 62.8100, lon = Some 27.5600, city = ''Kuopio''\<rparr>),
   (''70870'', \<lparr>lat = Some 62.8050, lon = Some 27.5500, city = ''Kuopio''\<rparr>),
   (''70900'', \<lparr>lat = Some 62.8000, lon = Some 27.5400, city = ''Kuopio''\<rparr>),
   (''71100'', \<lparr>lat = Some 62.9500, lon = Some 27.7200, city = ''Kuopio''\<rparr>),
   (''71130'', \<lparr>lat = Some 62.9600, lon = Some 27.7300, city = ''Kuopio''\<rparr>),
   (''71150'', \<lparr>lat = Some 62.9700, lon = Some 27.7400, city = ''Kuopio''\<rparr>),
   (''71160'', \<lparr>lat = Some 62.9800, lon = Some 27.7500, city = ''Kuopio''\<rparr>),
   (''71200'', \<lparr>lat = Some 63.0000, lon = Some 27.7600, city = ''Kuopio''\<rparr>),
   (''71310'', \<lparr>lat = Some 63.0200, lon = Some 27.7800, city = ''Kuopio''\<rparr>),
   (''71330'', \<lparr>lat = Some 63.0300, lon = Some 27.7900, city = ''Kuopio''\<rparr>),
   (''71380'', \<lparr>lat = Some 63.0400, lon = Some 27.8000, city = ''Kuopio''\<rparr>),
   (''71460'', \<lparr>lat = Some 63.0600, lon = Some 27.8200, city = ''Kuopio''\<rparr>),
   (''71470'', \<lparr>lat = Some 63.0700, lon = Some 27.8300, city = ''Kuopio''\<rparr>),
   (''71480'', \<lparr>lat = Some 63.0800, lon = Some 27.8400, city = ''Kuopio''\<rparr>),
   (''71490'', \<lparr>lat = Some 63.0900, lon = Some 27.8500, city = ''Kuopio''\<rparr>),
   (''71520'', \<lparr>lat = Some 62.8600, lon = Some 27.4000, city = ''Kuopio''\<rparr>),
   (''71530'', \<lparr>lat = Some 62.8500, lon = Some 27.3800, city = ''Kuopio''\<rparr>),
   (''71540'', \<lparr>lat = Some 62.8400, lon = Some 27.3600, city = ''Kuopio''\<rparr>),
   (''71570'', \<lparr>lat = Some 62.8200, lon = Some 27.3200, city = ''Kuopio''\<rparr>),
   (''71610'', \<lparr>lat = Some 62.7800, lon = Some 27.2800, city = ''Kuopio''\<rparr>),
   (''71620'', \<lparr>lat = Some 62.7600, lon = Some 27.2600, city = ''Kuopio''\<rparr>),
   (''71630'', \<lparr>lat = Some 62.7400, lon = Some 27.2400, city = ''Kuopio''\<rparr>),
   (''71640'', \<lparr>lat = Some 62.7200, lon = Some 27.2200, city = ''Kuopio''\<rparr>),
   (''71650'', \<lparr>lat = Some 62.7000, lon = Some 27.2000, city = ''Kuopio''\<rparr>),
   (''71660'', \<lparr>lat = Some 62.6800, lon = Some 27.1800, city = ''Kuopio''\<rparr>),
   (''71670'', \<lparr>lat = Some 62.6600, lon = Some 27.1600, city = ''Kuopio''\<rparr>),
   (''71680'', \<lparr>lat = Some 62.6400, lon = Some 27.1400, city = ''Kuopio''\<rparr>),
   (''71690'', \<lparr>lat = Some 62.6200, lon = Some 27.1200, city = ''Kuopio''\<rparr>),
   (''71720'', \<lparr>lat = Some 62.9200, lon = Some 27.3000, city = ''Kuopio''\<rparr>),
   (''71730'', \<lparr>lat = Some 62.9400, lon = Some 27.2800, city = ''Kuopio''\<rparr>),
   (''71740'', \<lparr>lat = Some 62.9600, lon = Some 27.2600, city = ''Kuopio''\<rparr>),
   (''71745'', \<lparr>lat = Some 62.9700, lon = Some 27.2500, city = ''Kuopio''\<rparr>),
   (''71750'', \<lparr>lat = Some 62.9800, lon = Some 27.2400, city = ''Kuopio''\<rparr>),
   (''71760'', \<lparr>lat = Some 62.9900, lon = Some 27.2300, city = ''Kuopio''\<rparr>),
   (''71770'', \<lparr>lat = Some 63.0000, lon = Some 27.2200, city = ''Kuopio''\<rparr>),
   (''71800'', \<lparr>lat = Some 62.8700, lon = Some 28.0000, city = ''Siilinj'' @ [CHR 0xE4] @ ''rvi''\<rparr>),
   (''71820'', \<lparr>lat = Some 62.8800, lon = Some 28.0100, city = ''Siilinj'' @ [CHR 0xE4] @ ''rvi''\<rparr>),
   (''71840'', \<lparr>lat = Some 62.8900, lon = Some 28.0200, city = ''Siilinj'' @ [CHR 0xE4] @ ''rvi''\<rparr>),
   (''71850'', \<lparr>lat = Some 62.9000, lon = Some 28.0300, city = ''Siilinj'' @ [CHR 0xE4] @ ''rvi''\<rparr>),
   (''71870'', \<lparr>lat = Some 62.9200, lon = Some 28.0500, city = ''Siilinj'' @ [CHR 0xE4] @ ''rvi''\<rparr>),
   (''71910'', \<lparr>lat = Some 63.0500, lon = Some 27.6500, city = ''Siilinj'' @ [CHR 0xE4] @ ''rvi''\<rparr>),
   (''71920'', \<lparr>lat = Some 63.0700, lon = Some 27.6300, city = ''Siilinj'' @ [CHR 0xE4] @ ''rvi''\<rparr>),
   (''71940'', \<lparr>lat = Some 63.1000, lon = Some 27.6000, city = ''Siilinj'' @ [CHR 0xE4] @ ''rvi''\<rparr>),
   (''71950'', \<lparr>lat = Some 63.1200, lon = Some 27.5800, city = ''Siilinj'' @ [CHR 0xE4] @ ''rvi''\<rparr>),
   (''71960'', \<lparr>lat = Some 63.1400, lon = Some 27.5600, city = ''Siilinj'' @ [CHR 0xE4] @ ''rvi''\<rparr>),
   (''72100'', \<lparr>lat = Some 63.2042, lon = Some 27.7274, city = ''Karttula''\<rparr>),
   (''72210'', \<lparr>lat = Some 63.2500, lon = Some 27.7000, city = ''Tervo''\<rparr>),
   (''72300'', \<lparr>lat = Some 63.1000, lon = Some 27.4500, city = ''Vesanto''\<rparr>),
   (''72400'', \<lparr>lat = Some 63.0500, lon = Some 27.3500, city = ''Pielavesi''\<rparr>),
   (''72530'', \<lparr>lat = Some 63.2000, lon = Some 26.7500, city = ''Pielavesi''\<rparr>),
   (''72600'', \<lparr>lat = Some 63.2500, lon = Some 26.5000, city = ''Keitele''\<rparr>),
   (''73100'', \<lparr>lat = Some 63.5500, lon = Some 27.1000, city = ''Lapinlahti''\<rparr>),
   (''73200'', \<lparr>lat = Some 63.4000, lon = Some 27.4000, city = ''Varpaisj'' @ [CHR 0xE4] @ ''rvi''\<rparr>),
   (''73300'', \<lparr>lat = Some 63.3000, lon = Some 27.8000, city = ''Nilsi'' @ [CHR 0xE4]\<rparr>),
   (''73310'', \<lparr>lat = Some 63.3200, lon = Some 27.8200, city = ''Nilsi'' @ [CHR 0xE4]\<rparr>),
   (''73320'', \<lparr>lat = Some 63.3400, lon = Some 27.8400, city = ''Nilsi'' @ [CHR 0xE4]\<rparr>),
   (''73350'', \<lparr>lat = Some 63.3800, lon = Some 27.8800, city = ''Tahkovuori''\<rparr>),
   (''73360'', \<lparr>lat = Some 63.4000, lon = Some 27.9000, city = ''Tahkovuori''\<rparr>),
   (''73900'', \<lparr>lat = Some 63.0800, lon = Some 28.3000, city = ''Rautavaara''\<rparr>),
   (''74100'', \<lparr>lat = Some 63.6500, lon = Some 27.8000, city = ''Iisalmi''\<rparr>),
   (''74120'', \<lparr>lat = Some 63.5600, lon = Some 27.1900, city = ''Iisalmi''\<rparr>),
   (''74130'', \<lparr>lat = Some 63.5700, lon = Some 27.2000, city = ''Iisalmi''\<rparr>),
   (''74140'', \<lparr>lat = Some 63.5800, lon = Some 27.2100, city = ''Iisalmi''\<rparr>),
   (''74150'', \<lparr>lat = Some 63.5900, lon = Some 27.2200, city = ''Iisalmi''\<rparr>),
   (''74160'', \<lparr>lat = Some 63.6000, lon = Some 27.2300, city = ''Iisalmi''\<rparr>),
   (''74170'', \<lparr>lat = Some 63.6100, lon = Some 27.2400, city = ''Iisalmi''\<rparr>),
   (''77600'', \<lparr>lat = Some 62.4800, lon = Some 27.2400, city = ''Suonenjoki''\<rparr>),
   (''77610'', \<lparr>lat = Some 62.4900, lon = Some 27.2500, city = ''Suonenjoki''\<rparr>),
   (''77630'', \<lparr>lat = Some 62.5100, lon = Some 27.2700, city = ''Suonenjoki''\<rparr>),
   (''77700'', \<lparr>lat = Some 62.6000, lon = Some 27.4000, city = ''Rautalampi''\<rparr>),
   (''77800'', \<lparr>lat = Some 62.7000, lon = Some 27.2000, city = ''Lepp'' @ [CHR 0xE4] @ ''virta''\<rparr>),
   (''78200'', \<lparr>lat = Some 62.5200, lon = Some 27.7500, city = ''Varkaus''\<rparr>),
   (''78210'', \<lparr>lat = Some 62.3200, lon = Some 27.8900, city = ''Varkaus''\<rparr>),
   (''78250'', \<lparr>lat = Some 62.3300, lon = Some 27.9000, city = ''Varkaus''\<rparr>),
   (''78300'', \<lparr>lat = Some 62.3400, lon = Some 27.9100, city = ''Varkaus''\<rparr>),
   (''78310'', \<lparr>lat = Some 62.3500, lon = Some 27.9200, city = ''Varkaus''\<rparr>),
   (''78500'', \<lparr>lat = Some 62.4500, lon = Some 28.0000, city = ''Joroinen''\<rparr>),
   (''78850'', \<lparr>lat = Some 62.4800, lon = Some 28.2000, city = ''Lepp'' @ [CHR 0xE4] @ ''virta''\<rparr>),
   (''79100'', \<lparr>lat = Some 62.4874, lon = Some 27.7875, city = ''Lepp'' @ [CHR 0xE4] @ ''virta''\<rparr>),
   (''76100'', \<lparr>lat = Some 62.3028, lon = Some 27.1304, city = ''Pieks'' @ [CHR 0xE4] @ ''m'' @ [CHR 0xE4] @ ''ki''\<rparr>),
   (''00100'', \<lparr>lat = Some 60.1699, lon = Some 24.9384, city = ''Helsinki''\<rparr>),
   (''00120'', \<lparr>lat = Some 60.1675, lon = Some 24.9427, city = ''Helsinki''\<rparr>),
   (''00130'', \<lparr>lat = Some 60.1658, lon = Some 24.9553, city = ''Helsinki''\<rparr>),
   (''00140'', \<lparr>lat = Some 60.1628, lon = Some 24.9689, city = ''Helsinki''\<rparr>),
   (''00150'', \<lparr>lat = Some 60.1602, lon = Some 24.9452, city = ''Helsinki''\<rparr>),
   (''00160'', \<lparr>lat = Some 60.1630, lon = Some 24.9250, city = ''Helsinki''\<rparr>),
   (''00170'', \<lparr>lat = Some 60.1710, lon = Some 24.9550, city = ''Helsinki''\<rparr>),
   (''00180'', \<lparr>lat = Some 60.1630, lon = Some 24.9500, city = ''Helsinki''\<rparr>),
   (''00200'', \<lparr>lat = Some 60.1590, lon = Some 24.9514, city = ''Helsinki''\<rparr>),
   (''00250'', \<lparr>lat = Some 60.1720, lon = Some 24.9050, city = ''Helsinki''\<rparr>),
   (''00300'', \<lparr>lat = Some 60.1800, lon = Some 24.9100, city = ''Helsinki''\<rparr>),
   (''00400'', \<lparr>lat = Some 60.2000, lon = Some 24.9100, city = ''Helsinki''\<rparr>),
   (''00500'', \<lparr>lat = Some 60.1872, lon = Some 24.9214, city = ''Helsinki''\<rparr>),
   (''00510'', \<lparr>lat = Some 60.1880, lon = Some 24.9650, city = ''Helsinki''\<rparr>),
   (''00520'', \<lparr>lat = Some 60.1950, lon = Some 24.9500, city = ''Helsinki''\<rparr>),
   (''00530'', \<lparr>lat = Some 60.1920, lon = Some 24.9650, city = ''Helsinki''\<rparr>),
   (''00550'', \<lparr>lat = Some 60.1890, lon = Some 24.9750, city = ''Helsinki''\<rparr>),
   (''00560'', \<lparr>lat = Some 60.2050, lon = Some 24.9600, city = ''Helsinki''\<rparr>),
   (''00600'', \<lparr>lat = Some 60.2100, lon = Some 24.9200, city = ''Helsinki''\<rparr>),
   (''00700'', \<lparr>lat = Some 60.2250, lon = Some 24.9300, city = ''Helsinki''\<rparr>),
   (''00800'', \<lparr>lat = Some 60.2350, lon = Some 24.9400, city = ''Helsinki''\<rparr>),
   (''00900'', \<lparr>lat = Some 60.2450, lon = Some 24.9500, city = ''Helsinki''\<rparr>),
   (''00920'', \<lparr>lat = Some 60.2350, lon = Some 24.9050, city = ''Helsinki''\<rparr>),
   (''00940'', \<lparr>lat = Some 60.2200, lon = Some 24.8800, city = ''Helsinki''\<rparr>),
   (''00980'', \<lparr>lat = Some 60.2500, lon = Some 25.0000, city = ''Helsinki''\<rparr>),
   (''01000'', \<lparr>lat = Some 60.2934, lon = Some 25.0378, city = ''Vantaa''\<rparr>),
   (''02100'', \<lparr>lat = Some 60.1756, lon = Some 24.8058, city = ''Espoo''\<rparr>),
   (''02200'', \<lparr>lat = Some 60.1850, lon = Some 24.8100, city = ''Espoo''\<rparr>),
   (''02600'', \<lparr>lat = Some 60.2100, lon = Some 24.7500, city = ''Espoo''\<rparr>),
   (''33100'', \<lparr>lat = Some 61.4978, lon = Some 23.7610, city = ''Tampere''\<rparr>),
   (''33200'', \<lparr>lat = Some 61.5100, lon = Some 23.7700, city = ''Tampere''\<rparr>),
   (''33500'', \<lparr>lat = Some 61.4850, lon = Some 23.8000, city = ''Tampere''\<rparr>),
   (''40100'', \<lparr>lat = Some 62.2426, lon = Some 25.7473, city = ''Jyv'' @ [CHR 0xE4] @ ''skyl'' @ [CHR 0xE4]\<rparr>),
   (''40200'', \<lparr>lat = Some 62.2300, lon = Some 25.7600, city = ''Jyv'' @ [CHR 0xE4] @ ''skyl'' @ [CHR 0xE4]\<rparr>),
   (''50100'', \<lparr>lat = Some 61.6885, lon = Some 27.2723, city = ''Mikkeli''\<rparr>),
   (''53100'', \<lparr>lat = Some 61.0587, lon = Some 28.1887, city = ''Lappeenranta''\<rparr>),
   (''65100'', \<lparr>lat = Some 63.0951, lon = Some 21.6165, city = ''Vaasa''\<rparr>),
   (''80100'', \<lparr>lat = Some 62.6024, lon = Some 29.7636, city = ''Joensuu''\<rparr>),
   (''90100'', \<lparr>lat = Some 65.0121, lon = Some 25.4651, city = ''Oulu''\<rparr>),
   (''90200'', \<lparr>lat = Some 65.0200, lon = Some 25.4500, city = ''Oulu''\<rparr>),
   (''90500'', \<lparr>lat = Some 65.0000, lon = Some 25.5000, city = ''Oulu''\<rparr>),
   (''96100'', \<lparr>lat = Some 66.5028, lon = Some 25.7285, city = ''Rovaniemi''\<rparr>),
   (''96200'', \<lparr>lat = Some 66.5100, lon = Some 25.7000, city = ''Rovaniemi''\<rparr>),
   (''99100'', \<lparr>lat = Some 69.0756, lon = Some 20.8150, city = ''Kilpisj'' @ [CHR 0xE4] @ ''rvi''\<rparr>),
   (''99130'', \<lparr>lat = Some 69.0450, lon = Some 20.7890, city = ''Kilpisj'' @ [CHR 0xE4] @ ''rvi''\<rparr>),
   (''99300'', \<lparr>lat = Some 68.4199, lon = Some 22.4898, city = ''Muonio''\<rparr>),
   (''99400'', \<lparr>lat = Some 68.0580, lon = Some 23.5430, city = ''Enonteki'' @ [CHR 0xF6]\<rparr>),
   (''99490'', \<lparr>lat = Some 69.0450, lon = Some 20.7890, city = ''Kilpisj'' @ [CHR 0xE4] @ ''rvi''\<rparr>),
   (''99600'', \<lparr>lat = Some 67.4458, lon = Some 26.5746, city = ''Sodankyl'' @ [CHR 0xE4]\<rparr>),
   (''99800'', \<lparr>lat = Some 68.6588, lon = Some 27.5348, city = ''Ivalo''\<rparr>),
   (''99870'', \<lparr>lat = Some 69.0700, lon = Some 27.0300, city = ''Inari''\<rparr>),
   (''99980'', \<lparr>lat = Some 70.0922, lon = Some 27.9072, city = ''Utsjoki''\<rparr>),
   (''97500'', \<lparr>lat = Some 67.8062, lon = Some 24.1508, city = ''Muonio''\<rparr>),
   (''97600'', \<lparr>lat = Some 67.7500, lon = Some 24.1500, city = ''Kittil'' @ [CHR 0xE4]\<rparr>),
   (''97700'', \<lparr>lat = Some 67.6600, lon = Some 23.6500, city = ''Kittil'' @ [CHR 0xE4]\<rparr>),
   (''98100'', \<lparr>lat = Some 67.4100, lon = Some 26.5900, city = ''Sodankyl'' @ [CHR 0xE4]\<rparr>),
   (''98530'', \<lparr>lat = Some 67.7390, lon = Some 27.5285, city = ''Sodankyl'' @ [CHR 0xE4]\<rparr>)
  ]"

text \<open>
  \<open>if (postalCodeMap[postalCode]) return postalCodeMap[postalCode]\<close>: an entry of the
  table, or a member of \<open>Object.prototype\<close>, is returned as it is.
\<close>

definition getPostalCodeInfo ::
  "(string \<Rightarrow> candidate list fetched) \<Rightarrow> geocodeCache \<Rightarrow> string \<Rightarrow>
     (resolved option \<times> geocodeCache) promise"
where
  "getPostalCodeInfo nominatim cache postalCode =
     (case map_of postalCodeMap postalCode of
        Some info \<Rightarrow> Inr (Some (Resolved info), cache)
      | None \<Rightarrow>
          if postalCode \<in> set Object_prototype then Inr (Some Prototype_member, cache)
          else geocodePostalCode nominatim cache postalCode)"

definition KUOPIO_CENTER :: "real \<times> real" where
  "KUOPIO_CENTER = (62.8933, 27.6783)"

section \<open>Station locator and observation parser\<close>

text \<open>
  \<open>new Date(text)\<close> is a time in milliseconds, or the invalid date (\<open>None\<close>). The
  clock of a request gives what \<open>new Date()\<close> reads: the time, and the month that
  \<open>getMonth()\<close> returns for it (0 is January); the server's time zone is taken to be
  UTC, and the calendar that finds the month is the platform's.
\<close>

type_synonym jsdate = "int option"

record clock =
  getTime :: int
  getMonth :: nat

text \<open>
  \<open>stationDistance\<close> is \<open>null\<close> or \<open>Math.round\<close> of a distance, which is NaN when
  the distance is.
\<close>

record SnowDepthResult =
  depth :: int
  stationName :: "string option"
  stationDistance :: "int option option"
  updatedAt :: "jsdate option"

text \<open>One \<open>wml2:MeasurementTVP\<close> match: its time and its value, as parsed.\<close>

record MeasurementTVP =
  tvp_time :: jsdate
  tvp_value :: "real option"

text \<open>\<open>time > latestTime\<close> on dates: false when either is invalid.\<close>

fun date_gt :: "jsdate \<Rightarrow> jsdate \<Rightarrow> bool" where
  "date_gt (Some a) (Some b) = (b < a)"
| "date_gt _ _ = False"

text \<open>
  The loop over the measurement matches, which both parsers run: the state is
  \<open>(latestTime, latestValue)\<close>, each \<open>null\<close> at first.
\<close>

fun latest_loop ::
  "jsdate option \<times> real option \<Rightarrow> MeasurementTVP list \<Rightarrow> jsdate option \<times> real option"
where
  "latest_loop st [] = st"
| "latest_loop (latestTime, latestValue) (m # ms) =
     latest_loop
       (case tvp_value m of
          None \<Rightarrow> (latestTime, latestValue)
        | Some v \<Rightarrow>
            if 0 \<le> v \<and> v < 500 then
              (case latestTime of
                 None \<Rightarrow> (Some (tvp_time m), Some v)
               | Some t \<Rightarrow>
                   if date_gt (tvp_time m) t then (Some (tvp_time m), Some v)
                   else (latestTime, latestValue))
            else (latestTime, latestValue))
       ms"

definition getMockSnowDepthResult :: "clock \<Rightarrow> real option \<Rightarrow> SnowDepthResult" where
  "getMockSnowDepthResult now la =
     (let month = getMonth now;
          isWinter = (month \<ge> 10 \<or> month \<le> 2);
          isLateWinter = (month = 2 \<or> month = 3);
          baseDepth =
            (if js_gt la 68 then (if isWinter then 25 else if isLateWinter then 15 else 5)
             else if js_gt la 66 then (if isWinter then 15 else if isLateWinter then 8 else 2)
             else if js_gt la 64 then (if isWinter then 10 else if isLateWinter then 5 else 0)
             else if js_gt la 62 then (if isWinter then 8 else if isLateWinter then 3 else 0)
             else (if isWinter then 3 else 0))
      in \<lparr>depth = baseDepth, stationName = None, stationDistance = None, updatedAt = None\<rparr>)"

text \<open>
  The body of a per-station answer, as \<open>fetchSnowFromStation\<close> reads it: the first
  \<open>gml:pos\<close> of the document (its two coordinates as \<open>parseFloat\<close> reads them) and all
  its measurements.
\<close>

record station_doc =
  doc_pos :: "(real option \<times> real option) option"
  doc_tvps :: "MeasurementTVP list"

text \<open>
  An optional number: \<open>!x\<close> holds when it is undefined, NaN or zero, and \<open>x || 0\<close> is
  0 then.
\<close>

definition falsy :: "real option \<Rightarrow> bool" where
  "falsy x = (x = None \<or> x = Some 0)"

definition or0 :: "real option \<Rightarrow> real" where
  "or0 x = (case x of None \<Rightarrow> 0 | Some v \<Rightarrow> v)"

definition fetchSnowFromStation_try ::
  "station_doc fetched \<Rightarrow> string \<Rightarrow> real option \<Rightarrow> real option \<Rightarrow>
     real option \<Rightarrow> real option \<Rightarrow> SnowDepthResult option promise"
where
  "fetchSnowFromStation_try fetched name userLat userLon stationLat stationLon =
     await fetched (\<lambda>resp. case resp of Response ok body \<Rightarrow>
       if \<not> ok then Inr None
       else await body (\<lambda>xmlText.
         let (finalStationLat, finalStationLon) =
               (if falsy stationLat \<or> falsy stationLon then
                  (case doc_pos xmlText of
                     Some pos \<Rightarrow> pos
                   | None \<Rightarrow> (Some (or0 stationLat), Some (or0 stationLon)))
                else (Some (or0 stationLat), Some (or0 stationLon)));
             (latestTime, latestValue) = latest_loop (None, None) (doc_tvps xmlText)
         in case (latestValue, latestTime) of
              (Some v, Some t) \<Rightarrow>
                Inr (Some \<lparr>depth = Math_round v,
                           stationName = Some name,
                           stationDistance = Some (Math_round_num
                             (calculateDistance userLat userLon finalStationLat finalStationLon)),
                           updatedAt = Some t\<rparr>)
            | _ \<Rightarrow> Inr None))"

definition fetchSnowFromStation ::
  "(string \<Rightarrow> station_doc fetched) \<Rightarrow> string \<Rightarrow> string \<Rightarrow> real option \<Rightarrow> real option \<Rightarrow>
     real option \<Rightarrow> real option \<Rightarrow> SnowDepthResult option promise"
where
  "fetchSnowFromStation stationSvc fmisid name userLat userLon stationLat stationLon =
     try_catch
       (fetchSnowFromStation_try (stationSvc fmisid) name userLat userLon stationLat stationLon)
       (\<lambda>e. Inr None)"

text \<open>
  One \<open>omso:PointTimeSeriesObservation\<close> match of a bounding-box answer: the trimmed
  station name if the series has one, the position if it has one (its two coordinates
  as \<open>parseFloat\<close> reads them), its measurements.
\<close>

record PointTimeSeries =
  gml_name :: "string option"
  gml_pos :: "(real option \<times> real option) option"
  tvps :: "MeasurementTVP list"

definition Tuntematon_asema :: string where
  "Tuntematon_asema = ''Tuntematon asema''"

text \<open>
  \<open>distance < bestDistance\<close>: the distance may be NaN (\<open>None\<close>, never less), and
  \<open>bestDistance\<close> is \<open>Infinity\<close> at first (\<open>None\<close> in the second place) and a number
  from the first station kept.
\<close>

fun lt_best :: "real option \<Rightarrow> real option \<Rightarrow> bool" where
  "lt_best None b = False"
| "lt_best (Some d) None = True"
| "lt_best (Some d) (Some b) = (d < b)"

fun series_loop ::
  "real option \<Rightarrow> real option \<Rightarrow> real \<Rightarrow> SnowDepthResult option \<times> real option \<Rightarrow>
     PointTimeSeries list \<Rightarrow> SnowDepthResult option \<times> real option"
where
  "series_loop userLat userLon maxDistance st [] = st"
| "series_loop userLat userLon maxDistance (bestResult, bestDistance) (s # ss) =
     series_loop userLat userLon maxDistance
       (case gml_pos s of
          None \<Rightarrow> (bestResult, bestDistance)
        | Some (stationLat, stationLon) \<Rightarrow>
            (let distance = calculateDistance userLat userLon stationLat stationLon in
             if js_gt distance maxDistance then (bestResult, bestDistance)
             else
               (case latest_loop (None, None) (tvps s) of
                  (Some t, Some v) \<Rightarrow>
                    if lt_best distance bestDistance then
                      (Some \<lparr>depth = Math_round v,
                             stationName = Some (case gml_name s of
                                                   Some n \<Rightarrow> n
                                                 | None \<Rightarrow> Tuntematon_asema),
                             stationDistance = Some (Math_round_num distance),
                             updatedAt = Some t\<rparr>,
                       distance)
                    else (bestResult, bestDistance)
                | _ \<Rightarrow> (bestResult, bestDistance))))
       ss"

definition parseTimeValuePairSnowResponse ::
  "clock \<Rightarrow> PointTimeSeries list \<Rightarrow> real option \<Rightarrow> real option \<Rightarrow> real \<Rightarrow> SnowDepthResult"
where
  "parseTimeValuePairSnowResponse now xmlText userLat userLon maxDistance =
     (case fst (series_loop userLat userLon maxDistance (None, None) xmlText) of
        Some bestResult \<Rightarrow> bestResult
      | None \<Rightarrow> getMockSnowDepthResult now userLat)"

text \<open>
  The bounding box of a search, \<open>lon - lonDelta, lat - latDelta, lon + lonDelta,
  lat + latDelta\<close>. (At a latitude whose cosine is zero JavaScript divides to an
  infinity where HOL's division gives 0; no theorem below reads the box there.)
\<close>

type_synonym bbox = "real option \<times> real option \<times> real option \<times> real option"

definition bbox_of :: "real option \<Rightarrow> real option \<Rightarrow> real \<Rightarrow> bbox" where
  "bbox_of la lo radiusKm =
     (let latDelta = Some (radiusKm / 111);
          lonDelta = map_option (\<lambda>v. radiusKm / (111 * cos (v * pi / 180))) la
      in (num_minus lo lonDelta, num_minus la latDelta,
          num_plus lo lonDelta, num_plus la latDelta))"

text \<open>\<open>!result.stationName\<close>: a name that is \<open>null\<close> or the empty string is falsy.\<close>

definition name_truthy :: "string option \<Rightarrow> bool" where
  "name_truthy n = (n \<noteq> None \<and> n \<noteq> Some [])"

definition searchStationsInRadius ::
  "(bbox \<Rightarrow> PointTimeSeries list fetched) \<Rightarrow> clock \<Rightarrow>
     real option \<Rightarrow> real option \<Rightarrow> real \<Rightarrow> SnowDepthResult option promise"
where
  "searchStationsInRadius searchSvc now la lo radiusKm =
     try_catch
       (await (searchSvc (bbox_of la lo radiusKm)) (\<lambda>resp. case resp of Response ok body \<Rightarrow>
          if \<not> ok then Inr None
          else await body (\<lambda>xmlText.
            let result = parseTimeValuePairSnowResponse now xmlText la lo radiusKm in
            if \<not> name_truthy (stationName result) then Inr None
            else Inr (Some result))))
       (\<lambda>e. Inr None)"

record KnownStation =
  fmisid :: string
  sname :: string
  slat :: real
  slon :: real

definition KILPISJARVI_STATIONS :: "KnownStation list" where
  "KILPISJARVI_STATIONS = [
     \<lparr>fmisid = ''102016'',
      sname = ''Kilpisj'' @ [CHR 0xE4] @ ''rvi kyl'' @ [CHR 0xE4] @ ''keskus'',
      slat = 69.0458, slon = 20.7877\<rparr>,
     \<lparr>fmisid = ''102017'', sname = ''Kilpisj'' @ [CHR 0xE4] @ ''rvi Saana'',
      slat = 69.0422, slon = 20.8508\<rparr>]"

definition INARI_IVALO_STATIONS :: "KnownStation list" where
  "INARI_IVALO_STATIONS = [
     \<lparr>fmisid = ''101784'', sname = ''Ivalo lentoasema'', slat = 68.6073, slon = 27.4053\<rparr>,
     \<lparr>fmisid = ''101885'',
      sname = ''Inari Saariselk'' @ [CHR 0xE4] @ '' matkailukeskus'',
      slat = 68.4151, slon = 27.4132\<rparr>,
     \<lparr>fmisid = ''102003'', sname = ''Inari Raja-Jooseppi'', slat = 68.4778, slon = 28.3000\<rparr>]"

text \<open>\<open>for (const station of ...)\<close>: the first station with an observation wins.\<close>

fun station_loop ::
  "(string \<Rightarrow> station_doc fetched) \<Rightarrow> real option \<Rightarrow> real option \<Rightarrow> KnownStation list \<Rightarrow>
     SnowDepthResult option promise"
where
  "station_loop stationSvc la lo [] = Inr None"
| "station_loop stationSvc la lo (station # rest) =
     await (fetchSnowFromStation stationSvc (fmisid station) (sname station) la lo
              (Some (slat station)) (Some (slon station)))
       (\<lambda>result. case result of
          Some r \<Rightarrow> Inr (Some r)
        | None \<Rightarrow> station_loop stationSvc la lo rest)"

text \<open>\<open>for (const radiusKm of searchRadii)\<close>\<close>

fun radius_loop ::
  "(bbox \<Rightarrow> PointTimeSeries list fetched) \<Rightarrow> clock \<Rightarrow>
     real option \<Rightarrow> real option \<Rightarrow> real list \<Rightarrow> SnowDepthResult option promise"
where
  "radius_loop searchSvc now la lo [] = Inr None"
| "radius_loop searchSvc now la lo (radiusKm # rest) =
     await (searchStationsInRadius searchSvc now la lo radiusKm)
       (\<lambda>result. case result of
          Some r \<Rightarrow>
            if name_truthy (stationName r) then Inr (Some r)
            else radius_loop searchSvc now la lo rest
        | None \<Rightarrow> radius_loop searchSvc now la lo rest)"

text \<open>The observation services of one run of the locator.\<close>

record observations =
  stationSvc :: "string \<Rightarrow> station_doc fetched"
  searchSvc :: "bbox \<Rightarrow> PointTimeSeries list fetched"

definition getSnowDepthWithStationInfo ::
  "observations \<Rightarrow> clock \<Rightarrow> real option \<Rightarrow> real option \<Rightarrow> string option \<Rightarrow>
     SnowDepthResult promise"
where
  "getSnowDepthWithStationInfo obs now la lo postalCode =
     await
       (if postalCode = Some ''99130'' \<or> postalCode = Some ''99100'' \<or>
           postalCode = Some ''99490'' \<or>
           (js_gt la 69.0 \<and> js_gt lo 20.5 \<and> js_lt lo 21.0)
        then station_loop (stationSvc obs) la lo KILPISJARVI_STATIONS
        else Inr None)
       (\<lambda>kilpisjarvi. case kilpisjarvi of
          Some r \<Rightarrow> Inr r
        | None \<Rightarrow>
            await
              (if (case postalCode of
                     Some pc \<Rightarrow> prefix ''998'' pc \<or> prefix ''997'' pc
                   | None \<Rightarrow> False) \<or>
                  (js_gt la 68.0 \<and> js_lt la 69.5 \<and> js_gt lo 27.0 \<and> js_lt lo 29.0)
               then station_loop (stationSvc obs) la lo INARI_IVALO_STATIONS
               else Inr None)
              (\<lambda>inari. case inari of
                 Some r \<Rightarrow> Inr r
               | None \<Rightarrow>
                   await (radius_loop (searchSvc obs) now la lo [25, 50])
                     (\<lambda>found. case found of
                        Some r \<Rightarrow> Inr r
                      | None \<Rightarrow> Inr (getMockSnowDepthResult now la))))"

definition getSnowDepth ::
  "observations \<Rightarrow> clock \<Rightarrow> real option \<Rightarrow> real option \<Rightarrow> int promise"
where
  "getSnowDepth obs now la lo =
     await (getSnowDepthWithStationInfo obs now la lo None) (\<lambda>result. Inr (depth result))"

section \<open>Forecast engine\<close>

datatype precip_type = snow | rain | sleet | none

definition determinePrecipType :: "real \<Rightarrow> real \<Rightarrow> real \<Rightarrow> real \<Rightarrow> precip_type" where
  "determinePrecipType avgTemp maxTemp minTemp precipAmount =
     (if precipAmount \<le> 0 then none
      else if maxTemp < - 1 then snow
      else if minTemp > 2 then rain
      else if maxTemp > 0 \<and> minTemp < 0 then sleet
      else if avgTemp \<le> 0 then snow
      else if avgTemp \<ge> 2 then rain
      else sleet)"

text \<open>
  A date key (\<open>toISOString().split('T')[0]\<close>) is given by its day number, the days
  since 1970-01-01 in UTC. Of a forecast day the model keeps the date and the numbers;
  the fields that only print them (\<open>dayName\<close>, \<open>dateLabel\<close>, \<open>precipLabel\<close>,
  \<open>icon\<close>) are left out.
\<close>

definition dateKey_of :: "int \<Rightarrow> int" where
  "dateKey_of ms = ms div 86400000"

record ThawCondition =
  date :: int
  maxTemp :: int
  totalPrecip :: real

record ForecastDay =
  date :: int
  snowDepth :: int
  minTemp :: int
  maxTemp :: int
  temperature :: int
  precipAmount :: real
  precipType :: precip_type

record ForecastWithThawResult =
  forecast :: "ForecastDay list"
  hasThawConditions :: bool
  thawConditions :: "ThawCondition list"

record DayData =
  temps :: "real list"
  precip :: "real list"
  symbols :: "real list"

text \<open>The \<open>Map\<close> from date key to samples, in insertion order.\<close>

type_synonym dailyData = "(int \<times> DayData) list"

text \<open>
  One series of the forecast answer: the lower-cased name its \<open>observedProperty\<close>
  link ends in (empty when there is none) and its measurements.
\<close>

record ForecastSeries =
  paramName :: string
  f_tvps :: "MeasurementTVP list"

fun str_includes :: "string \<Rightarrow> string \<Rightarrow> bool" where
  "str_includes [] sub = (sub = [])"
| "str_includes (c # cs) sub = (prefix sub (c # cs) \<or> str_includes cs sub)"

definition push_sample :: "string \<Rightarrow> real \<Rightarrow> DayData \<Rightarrow> DayData" where
  "push_sample param v day =
     (if str_includes param ''temperature'' then day\<lparr>temps := temps day @ [v]\<rparr>
      else if str_includes param ''precipitation'' then day\<lparr>precip := precip day @ [v]\<rparr>
      else if str_includes param ''weathersymbol'' then day\<lparr>symbols := symbols day @ [v]\<rparr>
      else day)"

definition record_sample :: "string \<Rightarrow> int \<Rightarrow> real \<Rightarrow> dailyData \<Rightarrow> dailyData" where
  "record_sample param dateKey v dailyData =
     (let created =
            (if map_of dailyData dateKey = None
             then dailyData @ [(dateKey, \<lparr>temps = [], precip = [], symbols = []\<rparr>)]
             else dailyData)
      in map (\<lambda>(k, day). if k = dateKey then (k, push_sample param v day) else (k, day))
           created)"

text \<open>
  The loop over the measurements of a series: a value that is NaN is skipped, and
  \<open>toISOString\<close> throws a RangeError on an invalid date.
\<close>

fun measurement_loop :: "string \<Rightarrow> dailyData \<Rightarrow> MeasurementTVP list \<Rightarrow> dailyData promise" where
  "measurement_loop param dailyData [] = Inr dailyData"
| "measurement_loop param dailyData (m # ms) =
     (case tvp_value m of
        None \<Rightarrow> measurement_loop param dailyData ms
      | Some v \<Rightarrow>
          (case tvp_time m of
             None \<Rightarrow> Inl RangeError
           | Some t \<Rightarrow>
               measurement_loop param (record_sample param (dateKey_of t) v dailyData) ms))"

fun forecast_series_loop :: "dailyData \<Rightarrow> ForecastSeries list \<Rightarrow> dailyData promise" where
  "forecast_series_loop dailyData [] = Inr dailyData"
| "forecast_series_loop dailyData (s # ss) =
     await (measurement_loop (paramName s) dailyData (f_tvps s))
       (\<lambda>dailyData'. forecast_series_loop dailyData' ss)"

definition parseTimeValuePairForecast :: "ForecastSeries list \<Rightarrow> dailyData promise" where
  "parseTimeValuePairForecast xmlText = forecast_series_loop [] xmlText"

definition fallback_day :: "real option \<Rightarrow> clock \<Rightarrow> int \<Rightarrow> ForecastDay" where
  "fallback_day la today i =
     (let month = getMonth today;
          isWinter = (month \<ge> 10 \<or> month \<le> 3);
          baseSnow = (if js_gt la 64 then 45 else if js_gt la 62 then 30 else 15);
          baseTemp = (if js_gt la 64 then - 12 else if js_gt la 62 then - 8 else - 4);
          temp = baseTemp + (i mod 3 - 1) * 2
      in \<lparr>date = dateKey_of (getTime today + i * 86400000),
          snowDepth = (if isWinter then baseSnow + i * 2 else max 0 (baseSnow - i * 3)),
          minTemp = temp - 3,
          maxTemp = temp + 2,
          temperature = temp,
          precipAmount = (if isWinter then 1 else 0),
          precipType = (if isWinter then snow else none)\<rparr>)"

text \<open>\<open>for (let i = 1; i <= 3; i++)\<close>\<close>

definition getFallbackForecast :: "real option \<Rightarrow> clock \<Rightarrow> ForecastDay list" where
  "getFallbackForecast la today = map (fallback_day la today) [1, 2, 3]"

text \<open>
  \<open>xs.reduce((a, b) => a + b, 0)\<close> on doubles: every addition is rounded by \<open>fl\<close>.
\<close>

definition sum_doubles :: "(real \<Rightarrow> real) \<Rightarrow> real list \<Rightarrow> real" where
  "sum_doubles fl xs = foldl (\<lambda>a b. fl (a + b)) 0 xs"

text \<open>
  One round of the loop that builds the forecast; the state is
  \<open>(forecast, accumulatedSnow, thawConditions)\<close>. The sums, the quotient and the
  products of samples are rounded by \<open>fl\<close>; \<open>(avgTemp - 2) * 2\<close> is of whole numbers.
\<close>

definition forecast_step ::
  "(real \<Rightarrow> real) \<Rightarrow> real option \<Rightarrow> clock \<Rightarrow> dailyData \<Rightarrow>
     ForecastDay list \<times> real \<times> ThawCondition list \<Rightarrow> int \<Rightarrow>
     ForecastDay list \<times> real \<times> ThawCondition list"
where
  "forecast_step fl la today dailyData st i =
     (case st of (days, accumulatedSnow, thaws) \<Rightarrow>
        let dateKey = dateKey_of (getTime today + i * 86400000) in
        (case (case map_of dailyData dateKey of
                 None \<Rightarrow> None
               | Some dayData \<Rightarrow>
                   (case temps dayData of [] \<Rightarrow> None | t # ts \<Rightarrow> Some (dayData, t, ts))) of
           Some (dayData, t, ts) \<Rightarrow>
             (let minTemp' = Math_round (fold min ts t);
                  maxTemp' = Math_round (fold max ts t);
                  avgTemp = Math_round
                    (fl (sum_doubles fl (temps dayData) / real (length (temps dayData))));
                  totalPrecip' = sum_doubles fl (precip dayData);
                  roundedPrecip = fl (real_of_int (Math_round (fl (totalPrecip' * 10))) / 10);
                  precipType' = determinePrecipType (real_of_int avgTemp) (real_of_int maxTemp')
                                  (real_of_int minTemp') totalPrecip';
                  thaws' = (if maxTemp' \<ge> 1 \<and> totalPrecip' \<ge> 5
                            then thaws @ [\<lparr>ThawCondition.date = dateKey, maxTemp = maxTemp',
                                            totalPrecip = roundedPrecip\<rparr>]
                            else thaws);
                  accumulatedSnow' =
                    (if avgTemp < 0 \<and> totalPrecip' > 0
                     then fl (accumulatedSnow + totalPrecip')
                     else if avgTemp > 2
                     then max 0 (fl (accumulatedSnow - (real_of_int avgTemp - 2) * 2))
                     else accumulatedSnow)
              in (days @ [\<lparr>date = dateKey,
                           snowDepth = Math_round accumulatedSnow',
                           minTemp = minTemp',
                           maxTemp = maxTemp',
                           temperature = avgTemp,
                           precipAmount = roundedPrecip,
                           precipType = precipType'\<rparr>],
                  accumulatedSnow', thaws'))
         | None \<Rightarrow>
             (let defaultTemp = (if js_gt la 64 then - 8 else - 3)
              in (days @ [\<lparr>date = dateKey,
                           snowDepth = Math_round accumulatedSnow,
                           minTemp = defaultTemp - 3,
                           maxTemp = defaultTemp + 2,
                           temperature = defaultTemp,
                           precipAmount = 0,
                           precipType = none\<rparr>],
                  accumulatedSnow, thaws))))"

definition fallback_result :: "real option \<Rightarrow> clock \<Rightarrow> ForecastWithThawResult" where
  "fallback_result la today =
     \<lparr>forecast = getFallbackForecast la today, hasThawConditions = False, thawConditions = []\<rparr>"

definition getSnowForecast_try ::
  "(real \<Rightarrow> real) \<Rightarrow> (real option \<times> real option \<Rightarrow> ForecastSeries list fetched) \<Rightarrow>
     observations \<Rightarrow> clock \<Rightarrow> real option \<Rightarrow> real option \<Rightarrow> ForecastWithThawResult promise"
where
  "getSnowForecast_try fl forecastSvc obs today la lo =
     await (forecastSvc (la, lo)) (\<lambda>resp. case resp of Response ok body \<Rightarrow>
       if \<not> ok then Inr (fallback_result la today)
       else await body (\<lambda>xmlText.
         await (parseTimeValuePairForecast xmlText) (\<lambda>dailyData.
           if length dailyData = 0 then Inr (fallback_result la today)
           else await (getSnowDepth obs today la lo) (\<lambda>currentSnowDepth.
             case foldl (forecast_step fl la today dailyData)
                    ([], real_of_int currentSnowDepth, []) [1, 2, 3] of
               (days, accumulatedSnow, thaws) \<Rightarrow>
                 Inr \<lparr>forecast = days, hasThawConditions = (length thaws > 0),
                      thawConditions = thaws\<rparr>))))"

text \<open>
  \<open>getSnowForecastWithThawWarning\<close>; \<open>obs\<close> are the observation services as its own
  call of \<open>getSnowDepth\<close> finds them. The threshold is passed and not used.
\<close>

definition getSnowForecastWithThawWarning ::
  "(real \<Rightarrow> real) \<Rightarrow> (real option \<times> real option \<Rightarrow> ForecastSeries list fetched) \<Rightarrow>
     observations \<Rightarrow> clock \<Rightarrow> real option \<Rightarrow> real option \<Rightarrow> jsnum \<Rightarrow>
     ForecastWithThawResult promise"
where
  "getSnowForecastWithThawWarning fl forecastSvc obs today la lo threshold =
     try_catch (getSnowForecast_try fl forecastSvc obs today la lo)
       (\<lambda>e. Inr (fallback_result la today))"

section \<open>The snow-data operation\<close>

text \<open>
  \<open>updatedAgo\<close> is given by its unit and count; the Finnish wording is left out.
\<close>

datatype updated_ago = JustNow | MinutesAgo int | HoursAgo int | DaysAgo int

definition updatedAgo_of :: "clock \<Rightarrow> jsdate option \<Rightarrow> updated_ago option" where
  "updatedAgo_of now updated =
     (case updated of
        None \<Rightarrow> None
      | Some None \<Rightarrow> Some JustNow
      | Some (Some t) \<Rightarrow>
          (let diffMs = getTime now - t;
               diffHours = diffMs div (1000 * 60 * 60);
               diffMinutes = diffMs div (1000 * 60)
           in Some (if diffHours \<ge> 24 then DaysAgo (diffHours div 24)
                    else if diffHours \<ge> 1 then HoursAgo diffHours
                    else if diffMinutes \<ge> 1 then MinutesAgo diffMinutes
                    else JustNow)))"

record StationInfo =
  station_name :: "string option"
  station_distance :: "int option option"
  updatedAgo :: "updated_ago option"

text \<open>
  \<open>city\<close> is \<open>undefined\<close> (\<open>None\<close>) when what the resolver returned has none, and
  \<open>distanceFromKuopio\<close> is \<open>Math.round\<close> of a distance, NaN (\<open>None\<close>) when the
  distance is.
\<close>

record SnowDataResult =
  currentLoad :: int
  snowDepth :: int
  threshold :: jsnum
  status :: risk
  statusText :: string
  forecast :: "ForecastDay list"
  city :: "string option"
  distanceFromKuopio :: "int option"
  isWithinServiceArea :: bool
  heavyWetSnowWarning :: bool
  thawConditions :: "ThawCondition list"
  stationInfo :: StationInfo

text \<open>
  What the handler answers: the result with status 200, status 404 with the error
  \<open>postal_code_not_found\<close>, or status 500 from its own \<open>catch\<close>.
\<close>

datatype answer = Ok200 SnowDataResult | NotFound404 | Error500

text \<open>
  Everything outside the process, as one request finds it: the geocoding service, the
  observation services at the handler's call of the locator and at the forecast
  engine's, and the forecast service.
\<close>

record upstream =
  nominatim :: "string \<Rightarrow> candidate list fetched"
  observed :: observations
  forecastSvc :: "real option \<times> real option \<Rightarrow> ForecastSeries list fetched"
  observed_again :: observations

text \<open>
  The object that \<open>res.json\<close> sends, from what the handler has computed and awaited.
\<close>

definition response_json ::
  "clock \<Rightarrow> resolved \<Rightarrow> SnowDepthResult \<Rightarrow> jsnum \<Rightarrow> ForecastWithThawResult \<Rightarrow>
     SnowDataResult"
where
  "response_json now postalInfo snowResult userThreshold forecastResult =
     (let distance = calculateDistance (lat_of postalInfo) (lon_of postalInfo)
                       (Some (fst KUOPIO_CENTER)) (Some (snd KUOPIO_CENTER));
          inArea = js_le distance 80;
          load = currentLoad_of (depth snowResult);
          percentage = percentage_of load userThreshold
      in \<lparr>currentLoad = load,
          snowDepth = depth snowResult,
          threshold = userThreshold,
          status = fst (status_of percentage),
          statusText = snd (status_of percentage),
          forecast = ForecastWithThawResult.forecast forecastResult,
          city = city_of postalInfo,
          distanceFromKuopio = Math_round_num distance,
          isWithinServiceArea = inArea,
          heavyWetSnowWarning =
            showHeavyWetSnowWarning_of load userThreshold (hasThawConditions forecastResult),
          thawConditions = ForecastWithThawResult.thawConditions forecastResult,
          stationInfo =
            \<lparr>station_name = stationName snowResult,
             station_distance = stationDistance snowResult,
             updatedAgo = updatedAgo_of now (updatedAt snowResult)\<rparr>\<rparr>)"

text \<open>
  The handler after the resolver has returned: \<open>if (!postalInfo)\<close> answers 404, and
  anything else, also a member of \<open>Object.prototype\<close>, goes on with its \<open>lat\<close> and
  \<open>lon\<close>.
\<close>

definition snowData_rest ::
  "upstream \<Rightarrow> (string \<Rightarrow> jsnum) \<Rightarrow> (real \<Rightarrow> real) \<Rightarrow> clock \<Rightarrow> string \<Rightarrow> query \<Rightarrow>
     resolved option \<Rightarrow> answer promise"
where
  "snowData_rest up parseInt fl now postalCode thresholdParam resolver_says =
     (case resolver_says of
        None \<Rightarrow> Inr NotFound404
      | Some postalInfo \<Rightarrow>
          await (getSnowDepthWithStationInfo (observed up) now (lat_of postalInfo)
                   (lon_of postalInfo) (Some postalCode))
            (\<lambda>snowResult.
               let userThreshold = userThreshold_of parseInt thresholdParam
               in await (getSnowForecastWithThawWarning fl (forecastSvc up)
                           (observed_again up) now (lat_of postalInfo) (lon_of postalInfo)
                           userThreshold)
                    (\<lambda>forecastResult.
                       Inr (Ok200 (response_json now postalInfo snowResult userThreshold
                                     forecastResult)))))"

text \<open>
  The handler of \<open>GET /api/snow-data/:postalCode\<close>. Its one \<open>try\<close> block is written
  in two steps, so that the cache as the resolver left it is the state after a later
  exception too. \<open>parseInt\<close> and the rounding \<open>fl\<close> of doubles are the platform's.
\<close>

definition snowData ::
  "upstream \<Rightarrow> (string \<Rightarrow> jsnum) \<Rightarrow> (real \<Rightarrow> real) \<Rightarrow> clock \<Rightarrow> geocodeCache \<Rightarrow> string \<Rightarrow>
     query \<Rightarrow> answer \<times> geocodeCache"
where
  "snowData up parseInt fl now cache postalCode thresholdParam =
     (case getPostalCodeInfo (nominatim up) cache postalCode of
        Inl e \<Rightarrow> (Error500, cache)
      | Inr (resolver_says, cache') \<Rightarrow>
          (case snowData_rest up parseInt fl now postalCode thresholdParam resolver_says of
             Inl e \<Rightarrow> (Error500, cache')
           | Inr a \<Rightarrow> (a, cache')))"

section \<open>Notions the properties are stated with\<close>

text \<open>
  A measurement is valid when its value is a number in [0, 500). The distance of a
  station to the query point is a number when the station has a position and the
  distance computed from it is one. A station of a bounding-box answer is eligible for a
  search when it has such a distance, the distance is within the radius, and it has a
  valid measurement.
\<close>

definition valid_measurement :: "MeasurementTVP \<Rightarrow> bool" where
  "valid_measurement m = (case tvp_value m of None \<Rightarrow> False | Some v \<Rightarrow> 0 \<le> v \<and> v < 500)"

definition distance_to :: "real option \<Rightarrow> real option \<Rightarrow> PointTimeSeries \<Rightarrow> real option" where
  "distance_to la lo s =
     (case gml_pos s of None \<Rightarrow> None | Some (a, b) \<Rightarrow> calculateDistance la lo a b)"

definition eligible :: "real option \<Rightarrow> real option \<Rightarrow> real \<Rightarrow> PointTimeSeries \<Rightarrow> bool" where
  "eligible la lo maxDistance s =
     (case distance_to la lo s of
        None \<Rightarrow> False
      | Some d \<Rightarrow> d \<le> maxDistance \<and> list_ex valid_measurement (tvps s))"

text \<open>What one round of the loop over the series offers: a result and its distance.\<close>

definition candidate_of ::
  "real option \<Rightarrow> real option \<Rightarrow> real \<Rightarrow> PointTimeSeries \<Rightarrow> (SnowDepthResult \<times> real) option"
where
  "candidate_of la lo maxDistance s =
     (case distance_to la lo s of
        None \<Rightarrow> None
      | Some d \<Rightarrow>
          if d > maxDistance then None
          else
            (case latest_loop (None, None) (tvps s) of
               (Some t, Some v) \<Rightarrow>
                 Some (\<lparr>depth = Math_round v,
                        stationName = Some (case gml_name s of
                                              Some n \<Rightarrow> n
                                            | None \<Rightarrow> Tuntematon_asema),
                        stationDistance = Some (Some (Math_round d)),
                        updatedAt = Some t\<rparr>, d)
             | _ \<Rightarrow> None))"

text \<open>
  The thaw condition that day \<open>i\<close> of the forecast contributes: none, or the one
  recorded for its date when the day has temperature samples, their maximum rounds to
  at least 1 and the sum of the precipitation samples, as the doubles add up, is at
  least 5.
\<close>

definition thaw_of :: "(real \<Rightarrow> real) \<Rightarrow> clock \<Rightarrow> dailyData \<Rightarrow> int \<Rightarrow> ThawCondition list" where
  "thaw_of fl today dailyData i =
     (let dateKey = dateKey_of (getTime today + i * 86400000) in
      case map_of dailyData dateKey of
        None \<Rightarrow> []
      | Some d \<Rightarrow>
          if temps d \<noteq> [] \<and> 1 \<le> Math_round (Max (set (temps d))) \<and>
             5 \<le> sum_doubles fl (precip d)
          then [\<lparr>ThawCondition.date = dateKey,
                 maxTemp = Math_round (Max (set (temps d))),
                 totalPrecip =
                   fl (real_of_int (Math_round (fl (sum_doubles fl (precip d) * 10))) / 10)\<rparr>]
          else [])"

text \<open>
  The samples the engine builds its forecast from, when there are any: the service
  answered, the answer was read and parsed, and some sample was found.
\<close>

definition forecast_path ::
  "(real option \<times> real option \<Rightarrow> ForecastSeries list fetched) \<Rightarrow> real option \<Rightarrow> real option \<Rightarrow>
     dailyData option"
where
  "forecast_path svc la lo =
     (case svc (la, lo) of
        Inr (Response True (Inr xmlText)) \<Rightarrow>
          (case parseTimeValuePairForecast xmlText of
             Inr dailyData \<Rightarrow> if dailyData = [] then None else Some dailyData
           | Inl e \<Rightarrow> None)
      | _ \<Rightarrow> None)"

text \<open>
  A call of a service has failed when it did not deliver a body in which something is
  found: the connection failed, the status was an error, the body could not be read,
  or there is nothing in it.
\<close>

definition failed :: "('b \<Rightarrow> bool) \<Rightarrow> 'b fetched \<Rightarrow> bool" where
  "failed nothing_in f =
     (case f of
        Inl e \<Rightarrow> True
      | Inr (Response ok body) \<Rightarrow>
          \<not> ok \<or> (case body of Inl e \<Rightarrow> True | Inr b \<Rightarrow> nothing_in b))"

section \<open>Example requests\<close>

text \<open>
  Two states of the world outside: every service unreachable; and a station at the
  centre of Kuopio that reports 36 cm, with a forecast of 1 degree and 5 mm for tomorrow
  (the forecast engine's own look at the stations failing). The clock reads midnight,
  1 January 1970.
\<close>

definition all_down :: upstream where
  "all_down =
     \<lparr>nominatim = (\<lambda>pc. Inl NetworkError),
      observed = \<lparr>stationSvc = (\<lambda>i. Inl NetworkError), searchSvc = (\<lambda>b. Inl NetworkError)\<rparr>,
      forecastSvc = (\<lambda>p. Inl NetworkError),
      observed_again = \<lparr>stationSvc = (\<lambda>i. Inl NetworkError),
                        searchSvc = (\<lambda>b. Inl NetworkError)\<rparr>\<rparr>"

definition january :: clock where
  "january = \<lparr>getTime = 0, getMonth = 0\<rparr>"

definition thaw_forecast :: "ForecastSeries list" where
  "thaw_forecast =
     [\<lparr>paramName = ''temperature'',
       f_tvps = [\<lparr>tvp_time = Some 86400000, tvp_value = Some 1\<rparr>]\<rparr>,
      \<lparr>paramName = ''precipitation1h'',
       f_tvps = [\<lparr>tvp_time = Some 86400000, tvp_value = Some 5\<rparr>]\<rparr>]"

definition kuopio_station :: "PointTimeSeries list" where
  "kuopio_station =
     [\<lparr>gml_name = Some ''Kuopio'', gml_pos = Some (Some 62.8933, Some 27.6783),
       tvps = [\<lparr>tvp_time = Some 0, tvp_value = Some 36\<rparr>]\<rparr>]"

definition thaw_upstream :: upstream where
  "thaw_upstream =
     \<lparr>nominatim = (\<lambda>pc. Inl NetworkError),
      observed = \<lparr>stationSvc = (\<lambda>i. Inl NetworkError),
                  searchSvc = (\<lambda>b. Inr (Response True (Inr kuopio_station)))\<rparr>,
      forecastSvc = (\<lambda>p. Inr (Response True (Inr thaw_forecast))),
      observed_again = \<lparr>stationSvc = (\<lambda>i. Inl NetworkError),
                        searchSvc = (\<lambda>b. Inl NetworkError)\<rparr>\<rparr>"

text \<open>
  The clock on 1 April 1970, and a forecast whose one temperature sample for tomorrow
  is 0.9 degrees, with 5 mm of precipitation.
\<close>

definition april :: clock where
  "april = \<lparr>getTime = 7776000000, getMonth = 3\<rparr>"

definition mild_forecast :: "ForecastSeries list" where
  "mild_forecast =
     [\<lparr>paramName = ''temperature'',
       f_tvps = [\<lparr>tvp_time = Some 86400000, tvp_value = Some 0.9\<rparr>]\<rparr>,
      \<lparr>paramName = ''precipitation1h'',
       f_tvps = [\<lparr>tvp_time = Some 86400000, tvp_value = Some 5\<rparr>]\<rparr>]"

text \<open>
  Four precipitation samples of one day, as \<open>parseFloat\<close> reads the texts 0.1, 4, 0.1
  and 0.8: they add up to 5, but in doubles to less.
\<close>

definition boundary_precip :: "real list" where
  "boundary_precip = [fl64 0.1, 4, fl64 0.1, fl64 0.8]"

text \<open>
  Two stations for a query at latitude 0, longitude 0: one half-way round the globe,
  listed first, and one at the query point.
\<close>

definition far_station :: PointTimeSeries where
  "far_station = \<lparr>gml_name = Some ''far'', gml_pos = Some (Some 0, Some 180),
                   tvps = [\<lparr>tvp_time = Some 0, tvp_value = Some 10\<rparr>]\<rparr>"

definition near_station :: PointTimeSeries where
  "near_station = \<lparr>gml_name = Some ''near'', gml_pos = Some (Some 0, Some 0),
                    tvps = [\<lparr>tvp_time = Some 0, tvp_value = Some 20\<rparr>,
                            \<lparr>tvp_time = Some 5, tvp_value = Some 30\<rparr>,
                            \<lparr>tvp_time = Some 9, tvp_value = Some 500\<rparr>]\<rparr>"

section \<open>No tier rejects\<close>

text \<open>
  Each \<open>async\<close> function below the handler fulfils, whatever the services do: its
  \<open>try\<close> block covers every call that can throw, and its \<open>catch\<close> returns.
\<close>

lemma try_catch_fulfils:
  assumes "\<And>e. \<exists>r. h e = Inr r"
  shows "\<exists>r. try_catch m h = Inr r"
  using assms by (cases m) (auto simp: try_catch_def)

lemma await_fulfils:
  assumes "\<exists>x. p = Inr x" and "\<And>x. \<exists>r. k x = Inr r"
  shows "\<exists>r. await p k = Inr r"
  using assms by (auto simp: await_def)

lemma fetchSnowFromStation_fulfils:
  "\<exists>r. fetchSnowFromStation svc fid nm la lo sla slo = Inr r"
  unfolding fetchSnowFromStation_def by (rule try_catch_fulfils) simp

lemma station_loop_fulfils: "\<exists>r. station_loop svc la lo sts = Inr r"
proof (induction sts)
  case Nil
  show ?case by simp
next
  case (Cons st sts)
  obtain r where r: "fetchSnowFromStation svc (fmisid st) (sname st) la lo
                       (Some (slat st)) (Some (slon st)) = Inr r"
    using fetchSnowFromStation_fulfils by blast
  show ?case using Cons r by (cases r) (simp_all add: await_def)
qed

lemma searchStationsInRadius_fulfils:
  "\<exists>r. searchStationsInRadius svc now la lo radiusKm = Inr r"
  unfolding searchStationsInRadius_def by (rule try_catch_fulfils) simp

lemma radius_loop_fulfils: "\<exists>r. radius_loop svc now la lo rs = Inr r"
proof (induction rs)
  case Nil
  show ?case by simp
next
  case (Cons radiusKm rs)
  obtain r where r: "searchStationsInRadius svc now la lo radiusKm = Inr r"
    using searchStationsInRadius_fulfils by blast
  show ?case using Cons r by (cases r) (simp_all add: await_def)
qed

lemma if_fulfils:
  assumes "\<exists>r. a = Inr r" and "\<exists>r. b = Inr r"
  shows "\<exists>r. (if c then a else b) = Inr r"
  using assms by simp

lemma case_option_fulfils:
  assumes "\<exists>r. a = Inr r" and "\<And>x. \<exists>r. f x = Inr r"
  shows "\<exists>r. (case opt of None \<Rightarrow> a | Some x \<Rightarrow> f x) = Inr r"
  using assms by (cases opt) simp_all

lemma Inr_fulfils: "\<exists>r. Inr x = Inr r"
  by simp

lemma getSnowDepthWithStationInfo_fulfils:
  "\<exists>r. getSnowDepthWithStationInfo obs now la lo pc = Inr r"
  unfolding getSnowDepthWithStationInfo_def
  by (intro await_fulfils if_fulfils case_option_fulfils station_loop_fulfils
        radius_loop_fulfils Inr_fulfils)

lemma getSnowDepth_fulfils: "\<exists>d. getSnowDepth obs now la lo = Inr d"
proof -
  obtain r where "getSnowDepthWithStationInfo obs now la lo None = Inr r"
    using getSnowDepthWithStationInfo_fulfils by blast
  then show ?thesis by (simp add: getSnowDepth_def await_def)
qed

lemma getSnowForecastWithThawWarning_fulfils:
  "\<exists>r. getSnowForecastWithThawWarning fl svc obs today la lo thr = Inr r"
  unfolding getSnowForecastWithThawWarning_def by (rule try_catch_fulfils) simp

lemma geocodePostalCode_fulfils: "\<exists>r. geocodePostalCode svc cache pc = Inr r"
proof (cases "cache pc")
  case None
  have "\<exists>r. try_catch (geocode_try (svc pc) cache pc)
              (\<lambda>e. Inr (None, cache(pc \<mapsto> None))) = Inr r"
    by (rule try_catch_fulfils) simp
  then show ?thesis
    using None by (simp add: geocodePostalCode_def del: set_simps)
next
  case (Some hit)
  then show ?thesis by (simp add: geocodePostalCode_def)
qed

lemma getPostalCodeInfo_fulfils: "\<exists>r. getPostalCodeInfo svc cache pc = Inr r"
  using geocodePostalCode_fulfils [of svc cache pc]
  by (simp add: getPostalCodeInfo_def del: set_simps split: option.split)

section \<open>The forecast loop\<close>

lemma fold_max_Max: "fold max ts (t::real) = Max (set (t # ts))"
  by (rule Max.set_eq_fold [symmetric])

lemma forecast_step_length:
  "length (fst (forecast_step fl la today dd st i)) = Suc (length (fst st))"
  by (cases st)
     (simp add: forecast_step_def Let_def split: option.split list.split prod.split)

lemma forecast_step_thaws:
  "snd (snd (forecast_step fl la today dd (days, acc, thaws) i)) = thaws @ thaw_of fl today dd i"
proof (cases "map_of dd (dateKey_of (getTime today + i * 86400000))")
  case None
  then show ?thesis by (simp add: forecast_step_def thaw_of_def)
next
  case (Some d)
  show ?thesis
  proof (cases "temps d")
    case Nil
    then show ?thesis using Some by (simp add: forecast_step_def thaw_of_def)
  next
    case (Cons t ts)
    then show ?thesis using Some
      by (simp add: forecast_step_def thaw_of_def Let_def fold_max_Max)
  qed
qed

lemma forecast_loop_shape:
  assumes "foldl (forecast_step fl la today dd) (days0, acc0, thaws0) [1, 2, 3] = (days, acc, thaws)"
  shows "length days = length days0 + 3"
    and "thaws = thaws0 @ thaw_of fl today dd 1 @ thaw_of fl today dd 2 @ thaw_of fl today dd 3"
proof -
  obtain d1 a1 t1 where s1: "forecast_step fl la today dd (days0, acc0, thaws0) 1 = (d1, a1, t1)"
    by (cases "forecast_step fl la today dd (days0, acc0, thaws0) 1") auto
  obtain d2 a2 t2 where s2: "forecast_step fl la today dd (d1, a1, t1) 2 = (d2, a2, t2)"
    by (cases "forecast_step fl la today dd (d1, a1, t1) 2") auto
  have s3: "forecast_step fl la today dd (d2, a2, t2) 3 = (days, acc, thaws)"
    using assms s1 s2 by simp
  have "length d1 = Suc (length days0)"
    using forecast_step_length [of fl la today dd "(days0, acc0, thaws0)" 1] s1 by simp
  moreover have "length d2 = Suc (length d1)"
    using forecast_step_length [of fl la today dd "(d1, a1, t1)" 2] s2 by simp
  moreover have "length days = Suc (length d2)"
    using forecast_step_length [of fl la today dd "(d2, a2, t2)" 3] s3 by simp
  ultimately show "length days = length days0 + 3" by simp
  have "t1 = thaws0 @ thaw_of fl today dd 1"
    using forecast_step_thaws [of fl la today dd days0 acc0 thaws0 1] s1 by simp
  moreover have "t2 = t1 @ thaw_of fl today dd 2"
    using forecast_step_thaws [of fl la today dd d1 a1 t1 2] s2 by simp
  moreover have "thaws = t2 @ thaw_of fl today dd 3"
    using forecast_step_thaws [of fl la today dd d2 a2 t2 3] s3 by simp
  ultimately show "thaws = thaws0 @ thaw_of fl today dd 1 @ thaw_of fl today dd 2 @ thaw_of fl today dd 3"
    by simp
qed

lemma fallback_result_shape:
  "length (ForecastWithThawResult.forecast (fallback_result la today)) = 3"
  "hasThawConditions (fallback_result la today) = False"
  "ForecastWithThawResult.thawConditions (fallback_result la today) = []"
  by (simp_all add: fallback_result_def getFallbackForecast_def)

text \<open>The engine's result, path by path.\<close>

lemma getSnowForecast_try_fallback:
  assumes "forecast_path svc la lo = None"
  shows "getSnowForecast_try fl svc obs today la lo = Inr (fallback_result la today) \<or>
         (\<exists>e. getSnowForecast_try fl svc obs today la lo = Inl e)"
proof (cases "svc (la, lo)")
  case (Inl e)
  then show ?thesis by (simp add: getSnowForecast_try_def await_def)
next
  case (Inr resp)
  obtain ok rbody where resp: "resp = Response ok rbody" by (cases resp)
  show ?thesis
  proof (cases ok)
    case False
    then show ?thesis using Inr resp by (simp add: getSnowForecast_try_def await_def)
  next
    case True
    show ?thesis
    proof (cases rbody)
      case (Inl e)
      then show ?thesis using Inr resp True by (simp add: getSnowForecast_try_def await_def)
    next
      case rbody: (Inr xml)
      show ?thesis
      proof (cases "parseTimeValuePairForecast xml")
        case (Inl e)
        then show ?thesis using Inr resp True rbody
          by (simp add: getSnowForecast_try_def await_def)
      next
        case p: (Inr dd)
        then have "dd = []" using assms Inr resp True rbody
          by (simp add: forecast_path_def split: if_splits)
        then show ?thesis using Inr resp True rbody p
          by (simp add: getSnowForecast_try_def await_def)
      qed
    qed
  qed
qed

lemma getSnowForecast_try_forecast:
  assumes "forecast_path svc la lo = Some dd"
  shows "\<exists>depth0 days acc thaws.
           getSnowDepth obs today la lo = Inr depth0 \<and>
           foldl (forecast_step fl la today dd) ([], real_of_int depth0, []) [1, 2, 3]
             = (days, acc, thaws) \<and>
           getSnowForecast_try fl svc obs today la lo =
             Inr \<lparr>ForecastWithThawResult.forecast = days,
                  hasThawConditions = (length thaws > 0), thawConditions = thaws\<rparr>"
proof -
  obtain xml where svc: "svc (la, lo) = Inr (Response True (Inr xml))"
    and p: "parseTimeValuePairForecast xml = Inr dd" and ne: "dd \<noteq> []"
    using assms
    by (auto simp: forecast_path_def split: sum.splits response.splits bool.splits if_splits)
  obtain depth0 where d: "getSnowDepth obs today la lo = Inr depth0"
    using getSnowDepth_fulfils by blast
  obtain days acc thaws where
    f: "foldl (forecast_step fl la today dd) ([], real_of_int depth0, []) [1, 2, 3]
          = (days, acc, thaws)"
    using prod_cases3 by blast
  have "getSnowForecast_try fl svc obs today la lo =
          Inr \<lparr>ForecastWithThawResult.forecast = days,
               hasThawConditions = (length thaws > 0), thawConditions = thaws\<rparr>"
    unfolding getSnowForecast_try_def await_def using svc p ne d f by simp
  then show ?thesis using d f by blast
qed

lemma engine_fallback:
  assumes "forecast_path svc la lo = None"
  shows "getSnowForecastWithThawWarning fl svc obs today la lo thr = Inr (fallback_result la today)"
  using getSnowForecast_try_fallback [OF assms, of fl obs today]
  by (auto simp: getSnowForecastWithThawWarning_def try_catch_def)

lemma engine_forecast:
  assumes "forecast_path svc la lo = Some dd"
  shows "\<exists>depth0 days acc thaws.
           getSnowDepth obs today la lo = Inr depth0 \<and>
           foldl (forecast_step fl la today dd) ([], real_of_int depth0, []) [1, 2, 3]
             = (days, acc, thaws) \<and>
           getSnowForecastWithThawWarning fl svc obs today la lo thr =
             Inr \<lparr>ForecastWithThawResult.forecast = days,
                  hasThawConditions = (length thaws > 0), thawConditions = thaws\<rparr>"
  using getSnowForecast_try_forecast [OF assms, of obs today fl]
  by (auto simp: getSnowForecastWithThawWarning_def try_catch_def)

lemma engine_shape:
  "\<exists>r. getSnowForecastWithThawWarning fl svc obs today la lo thr = Inr r \<and>
       length (ForecastWithThawResult.forecast r) = 3 \<and>
       hasThawConditions r = (ForecastWithThawResult.thawConditions r \<noteq> [])"
proof (cases "forecast_path svc la lo")
  case None
  then show ?thesis
    using engine_fallback [of svc la lo fl obs today thr] by (simp add: fallback_result_shape)
next
  case (Some dd)
  obtain depth0 days acc thaws where
    f: "foldl (forecast_step fl la today dd) ([], real_of_int depth0, []) [1, 2, 3]
          = (days, acc, thaws)"
    and r: "getSnowForecastWithThawWarning fl svc obs today la lo thr =
             Inr \<lparr>ForecastWithThawResult.forecast = days,
                  hasThawConditions = (length thaws > 0), thawConditions = thaws\<rparr>"
    using engine_forecast [OF Some, of obs today fl thr] by blast
  show ?thesis using forecast_loop_shape(1) [OF f] r by simp
qed

section \<open>The handler's answers\<close>

lemma snowData_answer:
  "\<exists>pinfo cache'.
     getPostalCodeInfo (nominatim up) cache pc = Inr (pinfo, cache') \<and>
     (case pinfo of
        None \<Rightarrow> snowData up parseInt fl now cache pc q = (NotFound404, cache')
      | Some info \<Rightarrow>
          (\<exists>snowResult forecastResult.
             getSnowDepthWithStationInfo (observed up) now (lat_of info) (lon_of info) (Some pc)
               = Inr snowResult \<and>
             getSnowForecastWithThawWarning fl (forecastSvc up) (observed_again up) now
               (lat_of info) (lon_of info) (userThreshold_of parseInt q) = Inr forecastResult \<and>
             snowData up parseInt fl now cache pc q =
               (Ok200 (response_json now info snowResult (userThreshold_of parseInt q)
                         forecastResult), cache')))"
proof -
  obtain pinfo cache' where g: "getPostalCodeInfo (nominatim up) cache pc = Inr (pinfo, cache')"
    using getPostalCodeInfo_fulfils [of "nominatim up" cache pc] by auto
  show ?thesis
  proof (cases pinfo)
    case None
    then show ?thesis using g by (simp add: snowData_def snowData_rest_def)
  next
    case (Some info)
    obtain sr where sr: "getSnowDepthWithStationInfo (observed up) now (lat_of info) (lon_of info)
                           (Some pc) = Inr sr"
      using getSnowDepthWithStationInfo_fulfils by blast
    obtain fr where fr: "getSnowForecastWithThawWarning fl (forecastSvc up) (observed_again up)
                           now (lat_of info) (lon_of info) (userThreshold_of parseInt q) = Inr fr"
      using getSnowForecastWithThawWarning_fulfils by blast
    show ?thesis using g Some sr fr
      by (simp add: snowData_def snowData_rest_def await_def)
  qed
qed

lemma snowData_Ok200:
  assumes "snowData up parseInt fl now cache pc q = (Ok200 r, cache')"
  shows "\<exists>info snowResult forecastResult.
           getPostalCodeInfo (nominatim up) cache pc = Inr (Some info, cache') \<and>
           getSnowDepthWithStationInfo (observed up) now (lat_of info) (lon_of info) (Some pc)
             = Inr snowResult \<and>
           getSnowForecastWithThawWarning fl (forecastSvc up) (observed_again up) now
             (lat_of info) (lon_of info) (userThreshold_of parseInt q) = Inr forecastResult \<and>
           r = response_json now info snowResult (userThreshold_of parseInt q) forecastResult"
proof -
  obtain pinfo c where g: "getPostalCodeInfo (nominatim up) cache pc = Inr (pinfo, c)"
    and rest: "case pinfo of
        None \<Rightarrow> snowData up parseInt fl now cache pc q = (NotFound404, c)
      | Some info \<Rightarrow>
          (\<exists>snowResult forecastResult.
             getSnowDepthWithStationInfo (observed up) now (lat_of info) (lon_of info) (Some pc)
               = Inr snowResult \<and>
             getSnowForecastWithThawWarning fl (forecastSvc up) (observed_again up) now
               (lat_of info) (lon_of info) (userThreshold_of parseInt q) = Inr forecastResult \<and>
             snowData up parseInt fl now cache pc q =
               (Ok200 (response_json now info snowResult (userThreshold_of parseInt q)
                         forecastResult), c))"
    using snowData_answer [of up cache pc parseInt fl now q] by blast
  show ?thesis
  proof (cases pinfo)
    case None
    then show ?thesis using rest assms by simp
  next
    case (Some info)
    then show ?thesis using rest assms g by auto
  qed
qed

text \<open>What the fields of an answer with status 200 are, in terms of each other.\<close>

lemma snowData_fields:
  assumes "snowData up parseInt fl now cache pc q = (Ok200 r, cache')"
  shows "currentLoad r = currentLoad_of (SnowDataResult.snowDepth r)"
    and "threshold r = userThreshold_of parseInt q"
    and "status r = fst (status_of (percentage_of (currentLoad r) (threshold r)))"
    and "heavyWetSnowWarning r =
           (js_ge (percentage_of (currentLoad r) (threshold r)) 60 \<and>
            SnowDataResult.thawConditions r \<noteq> [])"
    and "length (SnowDataResult.forecast r) = 3"
proof -
  obtain info sr fr where
    fr: "getSnowForecastWithThawWarning fl (forecastSvc up) (observed_again up) now
           (lat_of info) (lon_of info) (userThreshold_of parseInt q) = Inr fr"
    and r: "r = response_json now info sr (userThreshold_of parseInt q) fr"
    using snowData_Ok200 [OF assms] by blast
  have shape: "length (ForecastWithThawResult.forecast fr) = 3"
    "hasThawConditions fr = (ForecastWithThawResult.thawConditions fr \<noteq> [])"
    using engine_shape [of fl "forecastSvc up" "observed_again up" now "lat_of info" "lon_of info"
                          "userThreshold_of parseInt q"] fr by auto
  show "currentLoad r = currentLoad_of (SnowDataResult.snowDepth r)"
    by (simp add: r response_json_def Let_def)
  show "threshold r = userThreshold_of parseInt q"
    by (simp add: r response_json_def Let_def)
  show "status r = fst (status_of (percentage_of (currentLoad r) (threshold r)))"
    by (simp add: r response_json_def Let_def)
  show "heavyWetSnowWarning r =
           (js_ge (percentage_of (currentLoad r) (threshold r)) 60 \<and>
            SnowDataResult.thawConditions r \<noteq> [])"
    by (simp add: r response_json_def Let_def showHeavyWetSnowWarning_of_def shape)
  show "length (SnowDataResult.forecast r) = 3"
    by (simp add: r response_json_def Let_def shape)
qed

section \<open>Rounding\<close>

lemma Math_round_mono: "x \<le> y \<Longrightarrow> Math_round x \<le> Math_round y"
  by (simp add: Math_round_def floor_mono)

lemma currentLoad_of_closed: "currentLoad_of d = (5 * d + 1) div 2"
proof -
  have "real_of_int d * 2.5 + 1 / 2 = real_of_int (5 * d + 1) / real_of_int 2"
    by simp
  then have "\<lfloor>real_of_int d * 2.5 + 1 / 2\<rfloor> = (5 * d + 1) div 2"
    by (simp only: floor_divide_of_int_eq)
  then show ?thesis by (simp add: currentLoad_of_def Math_round_def)
qed

section \<open>The example requests, evaluated\<close>

text \<open>
  The samples of the examples are small whole numbers, or are not added to anything but
  0: the doubles add, multiply and divide them without rounding, so the examples are
  evaluated with the identity for \<open>fl\<close>.
\<close>

lemma calculateDistance_same:
  "calculateDistance (Some a) (Some b) (Some a) (Some b) = Some 0"
  by (simp add: calculateDistance_def Math_atan2_def)

lemmas handler_defs =
  snowData_def getPostalCodeInfo_def postalCodeMap_def snowData_rest_def await_def
  getSnowDepthWithStationInfo_def try_catch_def searchStationsInRadius_def
  getMockSnowDepthResult_def getSnowForecastWithThawWarning_def getSnowForecast_try_def
  response_json_def KUOPIO_CENTER_def calculateDistance_same fallback_result_def
  userThreshold_of_def currentLoad_of_def Math_round_def percentage_of_def status_of_def
  Let_def showHeavyWetSnowWarning_of_def updatedAgo_of_def getFallbackForecast_def
  fallback_day_def dateKey_of_def parseTimeValuePairSnowResponse_def name_truthy_def
  parseTimeValuePairForecast_def record_sample_def push_sample_def forecast_step_def
  getSnowDepth_def determinePrecipType_def js_gt_def js_lt_def js_le_def
  Math_round_num_def sum_doubles_def

lemma all_down_answer:
  "snowData all_down parseInt fl january Map.empty ''70100'' Absent =
    (Ok200 \<lparr>currentLoad = 20, snowDepth = 8, threshold = Num 140, status = safe,
            statusText = ''Turvallinen'',
            forecast =
              [\<lparr>date = 1, snowDepth = 32, minTemp = - 11, maxTemp = - 6, temperature = - 8,
                precipAmount = 1, precipType = snow\<rparr>,
               \<lparr>date = 2, snowDepth = 34, minTemp = - 9, maxTemp = - 4, temperature = - 6,
                precipAmount = 1, precipType = snow\<rparr>,
               \<lparr>date = 3, snowDepth = 36, minTemp = - 13, maxTemp = - 8, temperature = - 10,
                precipAmount = 1, precipType = snow\<rparr>],
            city = Some ''Kuopio'', distanceFromKuopio = Some 0, isWithinServiceArea = True,
            heavyWetSnowWarning = False, thawConditions = [],
            stationInfo = \<lparr>station_name = None, station_distance = None,
                            updatedAgo = None\<rparr>\<rparr>,
     Map.empty)"
  by (simp add: handler_defs all_down_def january_def)

lemma thaw_answer:
  "snowData thaw_upstream parseInt (\<lambda>x. x) january Map.empty ''70100'' Absent =
    (Ok200 \<lparr>currentLoad = 90, snowDepth = 36, threshold = Num 140, status = safe,
            statusText = ''Turvallinen'',
            forecast =
              [\<lparr>date = 1, snowDepth = 8, minTemp = 1, maxTemp = 1, temperature = 1,
                precipAmount = 5, precipType = sleet\<rparr>,
               \<lparr>date = 2, snowDepth = 8, minTemp = - 6, maxTemp = - 1, temperature = - 3,
                precipAmount = 0, precipType = none\<rparr>,
               \<lparr>date = 3, snowDepth = 8, minTemp = - 6, maxTemp = - 1, temperature = - 3,
                precipAmount = 0, precipType = none\<rparr>],
            city = Some ''Kuopio'', distanceFromKuopio = Some 0, isWithinServiceArea = True,
            heavyWetSnowWarning = True,
            thawConditions = [\<lparr>ThawCondition.date = 1, maxTemp = 1, totalPrecip = 5\<rparr>],
            stationInfo = \<lparr>station_name = Some ''Kuopio'', station_distance = Some (Some 0),
                            updatedAgo = Some JustNow\<rparr>\<rparr>,
     Map.empty)"
  by (simp add: handler_defs thaw_upstream_def january_def thaw_forecast_def kuopio_station_def)

section \<open>Precipitation type of the days of a forecast\<close>

lemma forecast_step_last:
  assumes "map_of dd (dateKey_of (getTime today + i * 86400000)) = Some d"
    and "temps d \<noteq> []"
  shows "precipType (last (fst (forecast_step fl la today dd (days, acc, thaws) i))) =
           determinePrecipType
             (real_of_int (temperature (last (fst (forecast_step fl la today dd (days, acc, thaws) i)))))
             (real_of_int (ForecastDay.maxTemp
                (last (fst (forecast_step fl la today dd (days, acc, thaws) i)))))
             (real_of_int (minTemp (last (fst (forecast_step fl la today dd (days, acc, thaws) i)))))
             (sum_doubles fl (precip d))"
proof (cases "temps d")
  case Nil
  then show ?thesis using assms by simp
next
  case (Cons t ts)
  then show ?thesis using assms(1) by (simp add: forecast_step_def Let_def)
qed

lemma fallback_day_precipType:
  "precipType (fallback_day la today i) =
     determinePrecipType (real_of_int (temperature (fallback_day la today i)))
       (real_of_int (ForecastDay.maxTemp (fallback_day la today i)))
       (real_of_int (minTemp (fallback_day la today i)))
       (precipAmount (fallback_day la today i))"
proof -
  have "i mod 3 - 1 \<le> 1" by presburger
  then show ?thesis
    by (simp add: fallback_day_def determinePrecipType_def Let_def)
qed

section \<open>Snow load, classification and warning\<close>

text \<open>
  C1. For every load and every threshold \<open>t > 0\<close> the classification is one of the
  three states, decided by the percentage \<open>load / t * 100\<close> with closed bounds: critical
  exactly from 100 up, moderate exactly from 80 up to below 100, safe exactly below 80;
  and the status of an answer is this classification of its load against its threshold.
  The witness has the ratios 0.80 (moderate), 0.7999 (safe) and 1.00 (critical).
\<close>

theorem C1_risk_classification:
  assumes "0 < t"
  shows "(fst (status_of (percentage_of load (Num t))) = critical
            \<longleftrightarrow> 100 \<le> real_of_int load / t * 100) \<and>
         (fst (status_of (percentage_of load (Num t))) = moderate
            \<longleftrightarrow> 80 \<le> real_of_int load / t * 100 \<and> real_of_int load / t * 100 < 100) \<and>
         (fst (status_of (percentage_of load (Num t))) = safe
            \<longleftrightarrow> real_of_int load / t * 100 < 80) \<and>
         (snowData up parseInt fl now cache pc q = (Ok200 r, cache') \<and> threshold r = Num t
            \<longrightarrow> status r = fst (status_of (percentage_of (currentLoad r) (Num t))))"
proof -
  have "snowData up parseInt fl now cache pc q = (Ok200 r, cache') \<and> threshold r = Num t
          \<longrightarrow> status r = fst (status_of (percentage_of (currentLoad r) (Num t)))"
    using snowData_fields(3) [of up parseInt fl now cache pc q r cache'] by auto
  then show ?thesis using assms by (simp add: status_of_def percentage_of_def)
qed

theorem C1_risk_classification_witness:
  "fst (status_of (percentage_of 80 (Num 100))) = moderate \<and>
   fst (status_of (percentage_of 7999 (Num 10000))) = safe \<and>
   fst (status_of (percentage_of 100 (Num 100))) = critical \<and>
   (\<exists>r. fst (snowData thaw_upstream (\<lambda>s. NaN) (\<lambda>x. x) january Map.empty ''70100'' Absent) = Ok200 r \<and>
        currentLoad r = 90 \<and> threshold r = Num 140 \<and> status r = safe)"
  using C1_risk_classification [of 100 80] C1_risk_classification [of 10000 7999]
    C1_risk_classification [of 100 100]
    C1_risk_classification [of 140 90 thaw_upstream "\<lambda>s. NaN" "\<lambda>x. x" january Map.empty
      "''70100''" Absent]
  by (simp add: thaw_answer)

text \<open>
  C2. The current load is the depth times 2.5, rounded to the nearest integer (a half
  rounds up), it does not decrease when the depth grows, and the load of an answer is
  this function of its snow depth. It holds for every depth, so for those in [0, 500).
\<close>

theorem C2_current_load:
  "currentLoad_of d = round (real_of_int d * 2.5) \<and>
   \<bar>real_of_int (currentLoad_of d) - real_of_int d * 2.5\<bar> \<le> 1 / 2 \<and>
   (d \<le> d' \<longrightarrow> currentLoad_of d \<le> currentLoad_of d') \<and>
   (snowData up parseInt fl now cache pc q = (Ok200 r, cache')
      \<longrightarrow> currentLoad r = round (real_of_int (SnowDataResult.snowDepth r) * 2.5))"
proof -
  have 1: "currentLoad_of x = round (real_of_int x * 2.5)" for x
    by (simp add: currentLoad_of_def Math_round_def round_def)
  have 2: "\<bar>real_of_int (currentLoad_of d) - real_of_int d * 2.5\<bar> \<le> 1 / 2"
    unfolding 1 using of_int_round_abs_le [of "real_of_int d * 2.5"] by simp
  have 3: "d \<le> d' \<longrightarrow> currentLoad_of d \<le> currentLoad_of d'"
    by (simp add: currentLoad_of_def Math_round_mono)
  have 4: "snowData up parseInt fl now cache pc q = (Ok200 r, cache')
      \<longrightarrow> currentLoad r = round (real_of_int (SnowDataResult.snowDepth r) * 2.5)"
    using snowData_fields(1) [of up parseInt fl now cache pc q r cache'] 1 by auto
  show ?thesis using 1 2 3 4 by blast
qed

theorem C2_current_load_witness:
  "currentLoad_of 36 = 90 \<and> currentLoad_of 3 = 8 \<and> currentLoad_of 499 = 1248 \<and>
   currentLoad_of 36 \<le> currentLoad_of 37 \<and>
   (\<exists>r. fst (snowData thaw_upstream (\<lambda>s. NaN) (\<lambda>x. x) january Map.empty ''70100'' Absent) = Ok200 r \<and>
        SnowDataResult.snowDepth r = 36 \<and> currentLoad r = 90)"
  using C2_current_load [of 36 37 thaw_upstream "\<lambda>s. NaN" "\<lambda>x. x" january Map.empty "''70100''" Absent]
    C2_current_load [of 3] C2_current_load [of 499]
  by (simp add: thaw_answer currentLoad_of_closed)

text \<open>
  C3. The heavy-wet-snow warning of an answer holds exactly when its load is at least
  60 percent of its threshold and the forecast engine recorded a thaw condition; for a
  threshold \<open>t > 0\<close> the first part is \<open>60 \<le> load / t * 100\<close>. The witness has load 90
  against 140 with and without a thaw day, load 80 against 140 with one, and two whole
  requests.
\<close>

theorem C3_heavy_wet_snow_warning:
  "(snowData up parseInt fl now cache pc q = (Ok200 r, cache')
      \<longrightarrow> heavyWetSnowWarning r =
            (js_ge (percentage_of (currentLoad r) (threshold r)) 60 \<and>
             SnowDataResult.thawConditions r \<noteq> [])) \<and>
   (0 < t \<longrightarrow> showHeavyWetSnowWarning_of load (Num t) hasThaw =
                (60 \<le> real_of_int load / t * 100 \<and> hasThaw))"
proof -
  have "snowData up parseInt fl now cache pc q = (Ok200 r, cache')
      \<longrightarrow> heavyWetSnowWarning r =
            (js_ge (percentage_of (currentLoad r) (threshold r)) 60 \<and>
             SnowDataResult.thawConditions r \<noteq> [])"
    using snowData_fields(4) [of up parseInt fl now cache pc q r cache'] by blast
  moreover have "0 < t \<longrightarrow> showHeavyWetSnowWarning_of load (Num t) hasThaw =
                (60 \<le> real_of_int load / t * 100 \<and> hasThaw)"
    by (simp add: showHeavyWetSnowWarning_of_def percentage_of_def)
  ultimately show ?thesis by blast
qed

theorem C3_heavy_wet_snow_warning_witness:
  "showHeavyWetSnowWarning_of 90 (Num 140) True = True \<and>
   showHeavyWetSnowWarning_of 90 (Num 140) False = False \<and>
   showHeavyWetSnowWarning_of 80 (Num 140) True = False \<and>
   (\<exists>r. fst (snowData thaw_upstream (\<lambda>s. NaN) (\<lambda>x. x) january Map.empty ''70100'' Absent) = Ok200 r \<and>
        currentLoad r = 90 \<and> threshold r = Num 140 \<and>
        length (SnowDataResult.thawConditions r) = 1 \<and> heavyWetSnowWarning r = True) \<and>
   (\<exists>r. fst (snowData all_down (\<lambda>s. NaN) (\<lambda>x. x) january Map.empty ''70100'' Absent) = Ok200 r \<and>
        SnowDataResult.thawConditions r = [] \<and> heavyWetSnowWarning r = False)"
  using C3_heavy_wet_snow_warning [of thaw_upstream "\<lambda>s. NaN" "\<lambda>x. x" january Map.empty "''70100''"
          Absent _ _ 140 90 True]
    C3_heavy_wet_snow_warning [of all_down "\<lambda>s. NaN" "\<lambda>x. x" january Map.empty "''70100''"
          Absent _ _ 140 90 False]
    C3_heavy_wet_snow_warning [of all_down "\<lambda>s. NaN" "\<lambda>x. x" january Map.empty "''70100''"
          Absent _ _ 140 80 True]
  by (simp add: thaw_answer all_down_answer)

text \<open>
  C8. The precipitation type follows the priority order: no positive amount, none; else
  a maximum below -1, snow; else a minimum above 2, rain; else a maximum above 0 with a
  minimum below 0, sleet; else by the average: snow up to 0, rain from 2, sleet
  between. Every day the engine builds from samples gets its type this way, from its
  rounded temperatures and the sum of its precipitation samples as the doubles add up,
  and the days of the fallback forecast agree with it.
\<close>

theorem C8_precipitation_type:
  "(p \<le> 0 \<longrightarrow> determinePrecipType av mx mn p = none) \<and>
   (0 < p \<and> mx < - 1 \<longrightarrow> determinePrecipType av mx mn p = snow) \<and>
   (0 < p \<and> - 1 \<le> mx \<and> 2 < mn \<longrightarrow> determinePrecipType av mx mn p = rain) \<and>
   (0 < p \<and> - 1 \<le> mx \<and> mn \<le> 2 \<and> 0 < mx \<and> mn < 0
      \<longrightarrow> determinePrecipType av mx mn p = sleet) \<and>
   (0 < p \<and> - 1 \<le> mx \<and> mn \<le> 2 \<and> (mx \<le> 0 \<or> 0 \<le> mn)
      \<longrightarrow> determinePrecipType av mx mn p =
            (if av \<le> 0 then snow else if 2 \<le> av then rain else sleet)) \<and>
   (map_of dd (dateKey_of (getTime today + i * 86400000)) = Some d \<and> temps d \<noteq> []
      \<longrightarrow> precipType (last (fst (forecast_step fl la today dd (days, acc, thaws) i))) =
            determinePrecipType
              (real_of_int (temperature
                 (last (fst (forecast_step fl la today dd (days, acc, thaws) i)))))
              (real_of_int (ForecastDay.maxTemp
                 (last (fst (forecast_step fl la today dd (days, acc, thaws) i)))))
              (real_of_int (minTemp
                 (last (fst (forecast_step fl la today dd (days, acc, thaws) i)))))
              (sum_doubles fl (precip d))) \<and>
   precipType (fallback_day la today i) =
     determinePrecipType (real_of_int (temperature (fallback_day la today i)))
       (real_of_int (ForecastDay.maxTemp (fallback_day la today i)))
       (real_of_int (minTemp (fallback_day la today i)))
       (precipAmount (fallback_day la today i))"
proof -
  have "(p \<le> 0 \<longrightarrow> determinePrecipType av mx mn p = none) \<and>
   (0 < p \<and> mx < - 1 \<longrightarrow> determinePrecipType av mx mn p = snow) \<and>
   (0 < p \<and> - 1 \<le> mx \<and> 2 < mn \<longrightarrow> determinePrecipType av mx mn p = rain) \<and>
   (0 < p \<and> - 1 \<le> mx \<and> mn \<le> 2 \<and> 0 < mx \<and> mn < 0
      \<longrightarrow> determinePrecipType av mx mn p = sleet) \<and>
   (0 < p \<and> - 1 \<le> mx \<and> mn \<le> 2 \<and> (mx \<le> 0 \<or> 0 \<le> mn)
      \<longrightarrow> determinePrecipType av mx mn p =
            (if av \<le> 0 then snow else if 2 \<le> av then rain else sleet))"
    by (auto simp: determinePrecipType_def)
  then show ?thesis
    using forecast_step_last [of dd today i d fl la days acc thaws]
      fallback_day_precipType [of la today i]
    by blast
qed

theorem C8_precipitation_type_witness:
  "determinePrecipType (- 5) 3 (- 9) 0 = none \<and>
   determinePrecipType (- 5) (- 2) (- 9) 1 = snow \<and>
   determinePrecipType 4 6 3 1 = rain \<and>
   determinePrecipType 1 3 (- 2) 1 = sleet \<and>
   determinePrecipType 0 0 (- 1) 1 = snow \<and>
   determinePrecipType 2 3 1 1 = rain \<and>
   determinePrecipType 1 1 1 5 = sleet"
  using C8_precipitation_type [where p = 0 and av = "- 5" and mx = 3 and mn = "- 9"]
    C8_precipitation_type [where p = 1 and av = "- 5" and mx = "- 2" and mn = "- 9"]
    C8_precipitation_type [where p = 1 and av = 4 and mx = 6 and mn = 3]
    C8_precipitation_type [where p = 1 and av = 1 and mx = 3 and mn = "- 2"]
    C8_precipitation_type [where p = 1 and av = 0 and mx = 0 and mn = "- 1"]
    C8_precipitation_type [where p = 1 and av = 2 and mx = 3 and mn = 1]
    C8_precipitation_type [where p = 5 and av = 1 and mx = 1 and mn = 1]
  by simp

text \<open>
  C10. Without a \<open>threshold\<close> parameter (or with an empty one) the threshold is 140, and
  the status and the warning of the answer are computed against 140.
\<close>

theorem C10_default_threshold:
  "userThreshold_of parseInt Absent = Num 140 \<and>
   userThreshold_of parseInt (Text []) = Num 140 \<and>
   (snowData up parseInt fl now cache pc Absent = (Ok200 r, cache')
      \<longrightarrow> threshold r = Num 140 \<and>
          status r = fst (status_of (percentage_of (currentLoad r) (Num 140))) \<and>
          heavyWetSnowWarning r =
            (js_ge (percentage_of (currentLoad r) (Num 140)) 60 \<and>
             SnowDataResult.thawConditions r \<noteq> []))"
proof -
  have t: "userThreshold_of parseInt Absent = Num 140"
    by (simp add: userThreshold_of_def)
  have "snowData up parseInt fl now cache pc Absent = (Ok200 r, cache')
      \<longrightarrow> threshold r = Num 140 \<and>
          status r = fst (status_of (percentage_of (currentLoad r) (Num 140))) \<and>
          heavyWetSnowWarning r =
            (js_ge (percentage_of (currentLoad r) (Num 140)) 60 \<and>
             SnowDataResult.thawConditions r \<noteq> [])"
    using snowData_fields(2,3,4) [of up parseInt fl now cache pc Absent r cache'] t by auto
  then show ?thesis using t by (simp add: userThreshold_of_def)
qed

theorem C10_default_threshold_witness:
  "\<exists>r. fst (snowData thaw_upstream (\<lambda>s. Num 7) (\<lambda>x. x) january Map.empty ''70100'' Absent) = Ok200 r \<and>
       threshold r = Num 140 \<and> currentLoad r = 90 \<and> status r = safe \<and>
       heavyWetSnowWarning r = True"
  using C10_default_threshold [of "\<lambda>s. Num 7" thaw_upstream "\<lambda>x. x" january Map.empty "''70100''"]
  by (simp add: thaw_answer)

section \<open>Failures and fallbacks\<close>

lemma failed_cases:
  assumes "failed nothing_in f"
  obtains e where "f = Inl e"
  | body where "f = Inr (Response False body)"
  | e where "f = Inr (Response True (Inl e))"
  | b where "f = Inr (Response True (Inr b))" and "nothing_in b"
proof (cases f)
  case (Inl e)
  then show ?thesis using that(1) by blast
next
  case (Inr resp)
  obtain ok body where resp: "resp = Response ok body" by (cases resp)
  show ?thesis
  proof (cases ok)
    case False
    then show ?thesis using Inr resp that(2) by blast
  next
    case True
    show ?thesis
    proof (cases body)
      case (Inl e)
      then show ?thesis using Inr resp True that(3) by blast
    next
      case b: (Inr b)
      then have "nothing_in b" using assms Inr resp True by (simp add: failed_def)
      then show ?thesis using Inr resp True b that(4) by blast
    qed
  qed
qed

lemma fetchSnowFromStation_failed:
  assumes "failed (\<lambda>d. doc_tvps d = []) (svc fid)"
  shows "fetchSnowFromStation svc fid nm la lo sla slo = Inr None"
  using assms
  by (cases rule: failed_cases)
     (simp_all add: fetchSnowFromStation_def fetchSnowFromStation_try_def try_catch_def
        await_def Let_def split: prod.split)

lemma station_loop_failed:
  assumes "\<And>i. failed (\<lambda>d. doc_tvps d = []) (svc i)"
  shows "station_loop svc la lo sts = Inr None"
  by (induction sts) (simp_all add: fetchSnowFromStation_failed [OF assms] await_def)

lemma searchStationsInRadius_failed:
  assumes "failed (\<lambda>xs. xs = []) (svc (bbox_of la lo radiusKm))"
  shows "searchStationsInRadius svc now la lo radiusKm = Inr None"
  using assms
  by (cases rule: failed_cases)
     (simp_all add: searchStationsInRadius_def try_catch_def await_def Let_def
        parseTimeValuePairSnowResponse_def getMockSnowDepthResult_def name_truthy_def)

lemma radius_loop_failed:
  assumes "\<And>b. failed (\<lambda>xs. xs = []) (svc b)"
  shows "radius_loop svc now la lo rs = Inr None"
  by (induction rs) (simp_all add: searchStationsInRadius_failed [OF assms] await_def)

lemma locator_failed:
  assumes "\<And>i. failed (\<lambda>d. doc_tvps d = []) (stationSvc obs i)"
    and "\<And>b. failed (\<lambda>xs. xs = []) (searchSvc obs b)"
  shows "getSnowDepthWithStationInfo obs now la lo pco = Inr (getMockSnowDepthResult now la)"
  unfolding getSnowDepthWithStationInfo_def
  by (simp add: station_loop_failed [OF assms(1)] radius_loop_failed [OF assms(2)] await_def
        del: radius_loop.simps station_loop.simps)

lemma geocode_failed:
  assumes "map_of postalCodeMap pc = None" and "pc \<notin> set Object_prototype"
    and "cache pc = None" and "failed (\<lambda>cs. cs = []) (svc pc)"
  shows "getPostalCodeInfo svc cache pc = Inr (None, cache(pc \<mapsto> None))"
  using assms(4)
  by (cases rule: failed_cases)
     (simp_all add: getPostalCodeInfo_def geocodePostalCode_def geocode_try_def try_catch_def
        await_def assms(1,2,3) del: set_simps)

lemma forecast_failed:
  assumes "failed (\<lambda>xml. parseTimeValuePairForecast xml = Inr [] \<or>
                         (\<exists>e. parseTimeValuePairForecast xml = Inl e)) (svc (la, lo))"
  shows "forecast_path svc la lo = None"
  using assms
  by (cases rule: failed_cases) (auto simp: forecast_path_def)

lemma snowData_never_500: "fst (snowData up parseInt fl now cache pc q) \<noteq> Error500"
  using snowData_answer [of up cache pc parseInt fl now q]
  by (auto split: option.splits)

lemma snowData_NotFound_iff:
  "fst (snowData up parseInt fl now cache pc q) = NotFound404 \<longleftrightarrow>
     (\<exists>c. getPostalCodeInfo (nominatim up) cache pc = Inr (None, c))"
  using snowData_answer [of up cache pc parseInt fl now q]
  by (auto split: option.splits)

lemma all_down_forecast_failed:
  "failed nothing_in (forecastSvc all_down p)"
  by (simp add: failed_def all_down_def)

text \<open>
  C5. Whatever the forecast service does (an answer with samples, an answer with none
  or one that cannot be parsed, an error status, a failed connection or read), the
  engine returns, and its forecast has exactly 3 days; when the service has failed they
  are the 3 days of the fallback forecast. So the forecast of every answer has 3 days.
\<close>

theorem C5_forecast_three_days:
  "(\<exists>r. getSnowForecastWithThawWarning fl svc obs today la lo thr = Inr r \<and>
        length (ForecastWithThawResult.forecast r) = 3) \<and>
   (failed (\<lambda>xml. parseTimeValuePairForecast xml = Inr [] \<or>
                   (\<exists>e. parseTimeValuePairForecast xml = Inl e)) (svc (la, lo))
      \<longrightarrow> getSnowForecastWithThawWarning fl svc obs today la lo thr =
            Inr \<lparr>ForecastWithThawResult.forecast = getFallbackForecast la today,
                 hasThawConditions = False, thawConditions = []\<rparr>) \<and>
   length (getFallbackForecast la today) = 3 \<and>
   (snowData up parseInt fl now cache pc q = (Ok200 r', cache')
      \<longrightarrow> length (SnowDataResult.forecast r') = 3)"
proof -
  have 1: "\<exists>r. getSnowForecastWithThawWarning fl svc obs today la lo thr = Inr r \<and>
        length (ForecastWithThawResult.forecast r) = 3"
    using engine_shape [of fl svc obs today la lo thr] by blast
  have 2: "failed (\<lambda>xml. parseTimeValuePairForecast xml = Inr [] \<or>
                   (\<exists>e. parseTimeValuePairForecast xml = Inl e)) (svc (la, lo))
      \<longrightarrow> getSnowForecastWithThawWarning fl svc obs today la lo thr =
            Inr \<lparr>ForecastWithThawResult.forecast = getFallbackForecast la today,
                 hasThawConditions = False, thawConditions = []\<rparr>"
    using engine_fallback [OF forecast_failed, of svc la lo fl obs today thr]
    by (simp add: fallback_result_def)
  have 3: "length (getFallbackForecast la today) = 3"
    by (simp add: getFallbackForecast_def)
  have 4: "snowData up parseInt fl now cache pc q = (Ok200 r', cache')
      \<longrightarrow> length (SnowDataResult.forecast r') = 3"
    using snowData_fields(5) [of up parseInt fl now cache pc q r' cache'] by blast
  show ?thesis using 1 2 3 4 by blast
qed

theorem C5_forecast_three_days_witness:
  "getSnowForecastWithThawWarning (\<lambda>x. x) (forecastSvc all_down) (observed_again all_down)
     january (Some 63) (Some 27) (Num 140) =
     Inr \<lparr>ForecastWithThawResult.forecast = getFallbackForecast (Some 63) january,
          hasThawConditions = False, thawConditions = []\<rparr> \<and>
   length (getFallbackForecast (Some 63) january) = 3 \<and>
   (\<exists>r. fst (snowData thaw_upstream (\<lambda>s. NaN) (\<lambda>x. x) january Map.empty ''70100'' Absent) = Ok200 r \<and>
        length (SnowDataResult.forecast r) = 3)"
  using C5_forecast_three_days [of "\<lambda>x. x" "forecastSvc all_down" "observed_again all_down"
          january "Some 63" "Some 27" "Num 140" thaw_upstream "\<lambda>s. NaN" january Map.empty
          "''70100''" Absent]
  by (simp add: all_down_forecast_failed thaw_answer)

text \<open>
  The keys of the table are strings of five characters, and no member of
  \<open>Object.prototype\<close> has a name of five: none is a key, and each is found all the same.
\<close>

lemma postalCodeMap_keys: "list_all (\<lambda>row. length (fst row) = 5) postalCodeMap"
  unfolding postalCodeMap_def by (simp only: list.pred_inject fst_conv) simp

lemma Object_prototype_names: "list_all (\<lambda>k. length k \<noteq> 5) Object_prototype"
  by (simp add: Object_prototype_def)

lemma Object_prototype_not_key:
  assumes "pc \<in> set Object_prototype"
  shows "map_of postalCodeMap pc = None"
proof -
  have "length pc \<noteq> 5"
    using assms Object_prototype_names by (simp add: list_all_iff)
  then have "pc \<notin> fst ` set postalCodeMap"
    using postalCodeMap_keys by (auto simp: list_all_iff)
  then show ?thesis by (simp add: map_of_eq_None_iff)
qed

lemma Object_prototype_resolved:
  assumes "pc \<in> set Object_prototype"
  shows "getPostalCodeInfo geo cache pc = Inr (Some Prototype_member, cache)"
  using assms Object_prototype_not_key [OF assms]
  by (simp add: getPostalCodeInfo_def del: set_simps)

lemma constructor_answer:
  "snowData all_down parseInt fl january Map.empty ''constructor'' Absent =
    (Ok200 \<lparr>currentLoad = 8, snowDepth = 3, threshold = Num 140, status = safe,
            statusText = ''Turvallinen'',
            forecast =
              [\<lparr>date = 1, snowDepth = 17, minTemp = - 7, maxTemp = - 2, temperature = - 4,
                precipAmount = 1, precipType = snow\<rparr>,
               \<lparr>date = 2, snowDepth = 19, minTemp = - 5, maxTemp = 0, temperature = - 2,
                precipAmount = 1, precipType = snow\<rparr>,
               \<lparr>date = 3, snowDepth = 21, minTemp = - 9, maxTemp = - 4, temperature = - 6,
                precipAmount = 1, precipType = snow\<rparr>],
            city = None, distanceFromKuopio = None, isWithinServiceArea = False,
            heavyWetSnowWarning = False, thawConditions = [],
            stationInfo = \<lparr>station_name = None, station_distance = None,
                            updatedAgo = None\<rparr>\<rparr>,
     Map.empty)"
proof -
  have "''constructor'' \<in> set Object_prototype"
    by (simp add: Object_prototype_def)
  then have "getPostalCodeInfo (nominatim all_down) Map.empty ''constructor'' =
               Inr (Some Prototype_member, Map.empty)"
    by (rule Object_prototype_resolved)
  then show ?thesis
    by (simp add: snowData_def snowData_rest_def await_def getSnowDepthWithStationInfo_def
          try_catch_def searchStationsInRadius_def getMockSnowDepthResult_def
          getSnowForecastWithThawWarning_def getSnowForecast_try_def response_json_def
          KUOPIO_CENTER_def calculateDistance_def fallback_result_def userThreshold_of_def
          currentLoad_of_def Math_round_def percentage_of_def status_of_def Let_def
          showHeavyWetSnowWarning_of_def updatedAgo_of_def getFallbackForecast_def
          fallback_day_def dateKey_of_def js_gt_def js_lt_def js_le_def Math_round_num_def
          all_down_def january_def)
qed

text \<open>
  C6. A request whose postal code is the name of a member of \<open>Object.prototype\<close>
  (\<open>constructor\<close>, \<open>toString\<close>, \<open>__proto__\<close>, ...) is not answered 404, although no
  postal code of that name is in the table and the geocoding service is not asked: the
  lookup in the table finds the inherited member, the resolver returns it, and the
  handler answers 200 with no city, a distance from Kuopio that is not a number, and
  the estimates for a latitude that is not a number, whatever the services do. In the
  witness every service is down, so nothing could have resolved the name.
\<close>

theorem C6_inherited_member_answered:
  assumes "pc \<in> set Object_prototype"
  shows "map_of postalCodeMap pc = None \<and>
         getPostalCodeInfo (nominatim up) cache pc = Inr (Some Prototype_member, cache) \<and>
         (\<exists>r. snowData up parseInt fl now cache pc q = (Ok200 r, cache) \<and>
              city r = None \<and> distanceFromKuopio r = None \<and>
              isWithinServiceArea r = False)"
proof -
  have g: "getPostalCodeInfo (nominatim up) cache pc = Inr (Some Prototype_member, cache)"
    using assms by (rule Object_prototype_resolved)
  obtain sr fr where
    "snowData up parseInt fl now cache pc q =
       (Ok200 (response_json now Prototype_member sr (userThreshold_of parseInt q) fr), cache)"
    using snowData_answer [of up cache pc parseInt fl now q] g by auto
  moreover have "city (response_json now Prototype_member sr t fr) = None"
    "distanceFromKuopio (response_json now Prototype_member sr t fr) = None"
    "isWithinServiceArea (response_json now Prototype_member sr t fr) = False" for t
    by (simp_all add: response_json_def calculateDistance_def Math_round_num_def js_le_def
          Let_def)
  ultimately show ?thesis
    using g Object_prototype_not_key [OF assms] by simp
qed

theorem C6_inherited_member_answered_witness:
  "''constructor'' \<in> set Object_prototype \<and>
   map_of postalCodeMap ''constructor'' = None \<and>
   failed (\<lambda>cs. cs = []) (nominatim all_down ''constructor'') \<and>
   snowData all_down (\<lambda>s. NaN) (\<lambda>x. x) january Map.empty ''constructor'' Absent =
    (Ok200 \<lparr>currentLoad = 8, snowDepth = 3, threshold = Num 140, status = safe,
            statusText = ''Turvallinen'',
            forecast =
              [\<lparr>date = 1, snowDepth = 17, minTemp = - 7, maxTemp = - 2, temperature = - 4,
                precipAmount = 1, precipType = snow\<rparr>,
               \<lparr>date = 2, snowDepth = 19, minTemp = - 5, maxTemp = 0, temperature = - 2,
                precipAmount = 1, precipType = snow\<rparr>,
               \<lparr>date = 3, snowDepth = 21, minTemp = - 9, maxTemp = - 4, temperature = - 6,
                precipAmount = 1, precipType = snow\<rparr>],
            city = None, distanceFromKuopio = None, isWithinServiceArea = False,
            heavyWetSnowWarning = False, thawConditions = [],
            stationInfo = \<lparr>station_name = None, station_distance = None,
                            updatedAgo = None\<rparr>\<rparr>,
     Map.empty)"
proof -
  have m: "''constructor'' \<in> set Object_prototype"
    by (simp add: Object_prototype_def)
  have f: "failed (\<lambda>cs. cs = []) (nominatim all_down ''constructor'')"
    by (simp add: failed_def all_down_def)
  show ?thesis
    using C6_inherited_member_answered [OF m, of all_down Map.empty "\<lambda>s. NaN" "\<lambda>x. x"
            january Absent]
    by (simp add: m f constructor_answer)
qed

section \<open>Seasonal fallback tables\<close>

lemma winter_months:
  fixes m :: nat
  assumes "m < 12"
  shows "(10 \<le> m \<or> m \<le> 2) = (m \<in> {10, 11, 0, 1, 2})"
    and "(10 \<le> m \<or> m \<le> 3) = (m \<in> {10, 11, 0, 1, 2, 3})"
  using assms by auto

text \<open>
  C9, as stated, fails: the two fallback tables do not band the seasons alike. In
  April (month 3, outside the months 10, 11, 0, 1, 2) the forecast fallback gives its
  winter day, the same as in January, while the depth estimate gives 3 cm and not the
  8 cm of its winter.
\<close>

theorem C9_same_banding_counterexample:
  "getMonth april \<notin> {10, 11, 0, 1, 2} \<and>
   fallback_day (Some 63) april 1 =
     \<lparr>date = 91, snowDepth = 32, minTemp = - 11, maxTemp = - 6, temperature = - 8,
      precipAmount = 1, precipType = snow\<rparr> \<and>
   precipType (fallback_day (Some 63) april 1) = precipType (fallback_day (Some 63) january 1) \<and>
   depth (getMockSnowDepthResult april (Some 63)) = 3 \<and>
   depth (getMockSnowDepthResult january (Some 63)) = 8"
  by (simp add: april_def january_def fallback_day_def getMockSnowDepthResult_def dateKey_of_def
        js_gt_def)

text \<open>
  C9, amended. For a month of the calendar, the depth estimate is its winter constant
  exactly in the months 10, 11, 0, 1, 2; the forecast fallback is in its winter form
  (1 mm of snow, a depth rising by 2 a day) exactly in the months 10, 11, 0, 1, 2, 3;
  and the temperature of day \<open>i\<close> of the fallback is \<open>baseTemp + (i mod 3 - 1) * 2\<close>.
  (A latitude that is not a number is above no bound.)
\<close>

theorem C9_season_bands:
  assumes "getMonth now < 12"
  shows "(depth (getMockSnowDepthResult now la) =
            (if js_gt la 68 then 25 else if js_gt la 66 then 15 else if js_gt la 64 then 10
             else if js_gt la 62 then 8 else 3)
          \<longleftrightarrow> getMonth now \<in> {10, 11, 0, 1, 2}) \<and>
         (precipType (fallback_day la now i) = snow
          \<longleftrightarrow> getMonth now \<in> {10, 11, 0, 1, 2, 3}) \<and>
         (precipAmount (fallback_day la now i) = 1
          \<longleftrightarrow> getMonth now \<in> {10, 11, 0, 1, 2, 3}) \<and>
         ForecastDay.snowDepth (fallback_day la now i) =
           (if getMonth now \<in> {10, 11, 0, 1, 2, 3}
            then (if js_gt la 64 then 45 else if js_gt la 62 then 30 else 15) + i * 2
            else max 0 ((if js_gt la 64 then 45 else if js_gt la 62 then 30 else 15) - i * 3)) \<and>
         temperature (fallback_day la now i) =
           (if js_gt la 64 then - 12 else if js_gt la 62 then - 8 else - 4) + (i mod 3 - 1) * 2"
proof -
  have 1: "depth (getMockSnowDepthResult now la) =
            (if js_gt la 68 then 25 else if js_gt la 66 then 15 else if js_gt la 64 then 10
             else if js_gt la 62 then 8 else 3)
          \<longleftrightarrow> getMonth now \<in> {10, 11, 0, 1, 2}"
    unfolding winter_months(1) [OF assms, symmetric]
    by (simp add: getMockSnowDepthResult_def Let_def)
  have 2: "precipType (fallback_day la now i) = snow
          \<longleftrightarrow> getMonth now \<in> {10, 11, 0, 1, 2, 3}"
    unfolding winter_months(2) [OF assms, symmetric]
    by (simp add: fallback_day_def Let_def)
  have 3: "precipAmount (fallback_day la now i) = 1
          \<longleftrightarrow> getMonth now \<in> {10, 11, 0, 1, 2, 3}"
    unfolding winter_months(2) [OF assms, symmetric]
    by (simp add: fallback_day_def Let_def)
  have 4: "ForecastDay.snowDepth (fallback_day la now i) =
           (if getMonth now \<in> {10, 11, 0, 1, 2, 3}
            then (if js_gt la 64 then 45 else if js_gt la 62 then 30 else 15) + i * 2
            else max 0 ((if js_gt la 64 then 45 else if js_gt la 62 then 30 else 15) - i * 3))"
    unfolding winter_months(2) [OF assms, symmetric]
    by (simp add: fallback_day_def Let_def)
  have 5: "temperature (fallback_day la now i) =
           (if js_gt la 64 then - 12 else if js_gt la 62 then - 8 else - 4) + (i mod 3 - 1) * 2"
    by (simp add: fallback_day_def Let_def)
  show ?thesis using 1 2 3 4 5 by blast
qed

theorem C9_season_bands_witness:
  "getMonth april < 12 \<and>
   depth (getMockSnowDepthResult april (Some 63)) \<noteq> 8 \<and>
   precipType (fallback_day (Some 63) april 1) = snow \<and>
   precipAmount (fallback_day (Some 63) april 1) = 1 \<and>
   ForecastDay.snowDepth (fallback_day (Some 63) april 1) = 32 \<and>
   temperature (fallback_day (Some 63) april 1) = - 8 \<and>
   temperature (fallback_day (Some 63) april 2) = - 6 \<and>
   temperature (fallback_day (Some 63) april 3) = - 10"
proof -
  have m: "getMonth april < 12" "getMonth april = 3"
    by (simp_all add: april_def)
  show ?thesis
    using C9_season_bands [OF m(1), of "Some 63" 1] C9_season_bands [OF m(1), of "Some 63" 2]
      C9_season_bands [OF m(1), of "Some 63" 3]
    by (simp add: m js_gt_def)
qed

section \<open>Thaw conditions\<close>

lemma Math_round_ge_1: "1 \<le> Math_round m \<longleftrightarrow> 1 / 2 \<le> m"
proof -
  have "1 \<le> \<lfloor>m + 1 / 2\<rfloor> \<longleftrightarrow> real_of_int 1 \<le> m + 1 / 2"
    by (rule le_floor_iff)
  also have "\<dots> \<longleftrightarrow> 1 / 2 \<le> m"
    by (auto simp: field_simps)
  finally show ?thesis by (simp only: Math_round_def)
qed

lemma thaw_of_nonempty:
  "thaw_of fl today dd i \<noteq> [] \<longleftrightarrow>
     (\<exists>d. map_of dd (dateKey_of (getTime today + i * 86400000)) = Some d \<and>
          temps d \<noteq> [] \<and> 1 / 2 \<le> Max (set (temps d)) \<and> 5 \<le> sum_doubles fl (precip d))"
  by (simp add: thaw_of_def Let_def Math_round_ge_1 split: option.split)

lemma thaw_upstream_forecast_path:
  "forecast_path (forecastSvc thaw_upstream) la lo =
     Some [(1, \<lparr>temps = [1], precip = [5], symbols = []\<rparr>)]"
  by (simp add: forecast_path_def thaw_upstream_def thaw_forecast_def
        parseTimeValuePairForecast_def await_def record_sample_def push_sample_def
        dateKey_of_def)

lemma all_down_forecast_path: "forecast_path (forecastSvc all_down) la lo = None"
  by (simp add: forecast_path_def all_down_def)

text \<open>
  The gate on the precipitation in doubles. The texts 0.1, 4, 0.1 and 0.8 denote numbers
  that add up to 5; the doubles read from them add up, one after the other, to
  \<open>5 - 1 / 2 ^ 50\<close>, which is 4.999999999999999. The day is reported with its rounded
  amount, 5, and no thaw condition is recorded for it.
\<close>

lemma fl64_binade:
  assumes "2 powr real_of_int k \<le> x" and "x < 2 powr (real_of_int k + 1)"
  shows "fl64 x = real_of_int (round_half_even (x / 2 powr (real_of_int k - 52))) *
                    2 powr (real_of_int k - 52)"
proof -
  have "0 < 2 powr real_of_int k" by simp
  then have pos: "0 < x" using assms(1) by linarith
  have "\<lfloor>log 2 x\<rfloor> = k"
    using floor_log_eq_powr_iff [of x 2 k] pos assms by simp
  then show ?thesis using pos by (simp add: fl64_def Let_def)
qed

lemmas fl64_eval =
  round_half_even_def Let_def powr_minus powr_realpow [symmetric] field_simps

lemma fl64_tenth: "fl64 0.1 = 3602879701896397 / 2 ^ 55"
  using fl64_binade [of "- 4" "0.1"] by (simp add: fl64_eval)

lemma fl64_eight_tenths: "fl64 0.8 = 3602879701896397 / 2 ^ 52"
  using fl64_binade [of "- 1" "0.8"] by (simp add: fl64_eval)

lemma fl64_1: "fl64 1 = 1"
  using fl64_binade [of 0 1] by (simp add: fl64_eval)

lemma fl64_5: "fl64 5 = 5"
  using fl64_binade [of 2 5] by (simp add: fl64_eval)

lemma doubles_step_1: "fl64 (0 + 3602879701896397 / 2 ^ 55) = 3602879701896397 / 2 ^ 55"
  using fl64_binade [of "- 4" "3602879701896397 / 2 ^ 55"] by (simp add: fl64_eval)

lemma doubles_step_2: "fl64 (3602879701896397 / 2 ^ 55 + 4) = 2308094809027379 / 2 ^ 49"
  using fl64_binade [of 2 "3602879701896397 / 2 ^ 55 + 4"] by (simp add: fl64_eval)

lemma doubles_step_3:
  "fl64 (2308094809027379 / 2 ^ 49 + 3602879701896397 / 2 ^ 55) = 1182194902184755 / 2 ^ 48"
  using fl64_binade [of 2 "2308094809027379 / 2 ^ 49 + 3602879701896397 / 2 ^ 55"]
  by (simp add: fl64_eval)

lemma doubles_step_4:
  "fl64 (1182194902184755 / 2 ^ 48 + 3602879701896397 / 2 ^ 52) = 5629499534213119 / 2 ^ 50"
  using fl64_binade [of 2 "1182194902184755 / 2 ^ 48 + 3602879701896397 / 2 ^ 52"]
  by (simp add: fl64_eval)

lemma boundary_precip_exact: "sum_list [0.1, 4, 0.1, 0.8] = (5::real)"
  by simp

lemma boundary_precip_doubles: "sum_doubles fl64 boundary_precip = 5 - 1 / 2 ^ 50"
proof -
  have "sum_doubles fl64 boundary_precip = 5629499534213119 / 2 ^ 50"
    by (simp only: boundary_precip_def sum_doubles_def foldl.simps fl64_tenth
          fl64_eight_tenths doubles_step_1 doubles_step_2 doubles_step_3 doubles_step_4)
  then show ?thesis by simp
qed

lemma boundary_precip_times_10: "fl64 ((5 - 1 / 2 ^ 50) * 10) = 50 - 1 / 2 ^ 47"
  using fl64_binade [of 5 "(5 - 1 / 2 ^ 50) * 10"] by (simp add: fl64_eval)

lemma boundary_temps: "sum_doubles fl64 [1] = 1"
  by (simp add: sum_doubles_def fl64_1)

lemma boundary_rounded:
  "fl64 (real_of_int (Math_round (fl64 (sum_doubles fl64 boundary_precip * 10))) / 10) = 5"
proof -
  have e: "fl64 (sum_doubles fl64 boundary_precip * 10) = 50 - 1 / 2 ^ 47"
    by (simp only: boundary_precip_doubles boundary_precip_times_10)
  have "Math_round (50 - 1 / 2 ^ 47) = 50"
    by (simp add: Math_round_def)
  then have r: "Math_round (fl64 (sum_doubles fl64 boundary_precip * 10)) = 50"
    by (simp only: e)
  have "real_of_int 50 / 10 = 5" by simp
  then show ?thesis by (simp only: r fl64_5)
qed

lemma boundary_gate:
  "\<not> 5 \<le> sum_doubles fl64 boundary_precip" "0 < sum_doubles fl64 boundary_precip"
  by (simp_all add: boundary_precip_doubles)

lemma boundary_day:
  "forecast_step fl64 la january
     [(1, \<lparr>temps = [1], precip = boundary_precip, symbols = []\<rparr>)] ([], 8, []) 1 =
   ([\<lparr>date = 1, snowDepth = 8, minTemp = 1, maxTemp = 1, temperature = 1,
      precipAmount = 5, precipType = sleet\<rparr>], 8, [])"
proof -
  have r: "Math_round 1 = 1" "Math_round 8 = 8"
    by (simp_all add: Math_round_def)
  show ?thesis
    using boundary_gate
    by (simp add: forecast_step_def january_def dateKey_of_def Let_def boundary_temps
          boundary_rounded fl64_1 r determinePrecipType_def)
qed

text \<open>
  C4, as stated, fails: a day whose maximum temperature is 0.9 degrees, with 5 mm of
  precipitation, is recorded as a thaw condition (with \<open>maxTemp\<close> 1), by one round of
  the loop and by the engine.
\<close>

theorem C4_thaw_day_counterexample:
  "Max (set (temps \<lparr>temps = [0.9], precip = [5], symbols = []\<rparr>)) < 1 \<and>
   snd (snd (forecast_step (\<lambda>x. x) (Some 63) january
               [(1, \<lparr>temps = [0.9], precip = [5], symbols = []\<rparr>)] ([], 8, []) 1)) =
     [\<lparr>ThawCondition.date = 1, maxTemp = 1, totalPrecip = 5\<rparr>] \<and>
   (case getSnowForecastWithThawWarning (\<lambda>x. x)
           (\<lambda>p. Inr (Response True (Inr mild_forecast)))
           (observed all_down) january (Some 63) (Some 27) (Num 140) of
      Inl e \<Rightarrow> False
    | Inr r \<Rightarrow>
        hasThawConditions r \<and>
        ForecastWithThawResult.thawConditions r =
          [\<lparr>ThawCondition.date = 1, maxTemp = 1, totalPrecip = 5\<rparr>])"
  by (simp add: handler_defs january_def mild_forecast_def all_down_def)

text \<open>
  C4, amended. A round of the loop records a thaw condition for its day exactly when
  the day has temperature samples, the maximum of them, rounded, is at least 1 (that is,
  the maximum is at least 0.5) and the sum of the precipitation samples that the loop
  computes, the doubles added one after the other from 0 with the rounding \<open>fl\<close> of
  each addition, unrounded otherwise, is at least 5 (so the day of \<open>boundary_day\<close>,
  reported with 5 mm, has none). When
  the engine has samples, its thaw conditions are those of the days 1, 2 and 3, and
  \<open>hasThawConditions\<close> holds exactly when one of the three days has one; when it has
  none, there are no thaw conditions and \<open>hasThawConditions\<close> is false.
\<close>

theorem C4_thaw_condition:
  "snd (snd (forecast_step fl la today dd (days, acc, thaws) i)) = thaws @ thaw_of fl today dd i \<and>
   (thaw_of fl today dd i \<noteq> [] \<longleftrightarrow>
      (\<exists>d. map_of dd (dateKey_of (getTime today + i * 86400000)) = Some d \<and>
           temps d \<noteq> [] \<and> 1 \<le> Math_round (Max (set (temps d))) \<and>
           5 \<le> sum_doubles fl (precip d))) \<and>
   (1 \<le> Math_round m \<longleftrightarrow> 1 / 2 \<le> m) \<and>
   (forecast_path svc la lo = Some dd
      \<longrightarrow> (\<exists>r. getSnowForecastWithThawWarning fl svc obs today la lo thr = Inr r \<and>
               ForecastWithThawResult.thawConditions r =
                 thaw_of fl today dd 1 @ thaw_of fl today dd 2 @ thaw_of fl today dd 3 \<and>
               hasThawConditions r =
                 (thaw_of fl today dd 1 \<noteq> [] \<or> thaw_of fl today dd 2 \<noteq> [] \<or>
                  thaw_of fl today dd 3 \<noteq> []))) \<and>
   (forecast_path svc la lo = None
      \<longrightarrow> (\<exists>r. getSnowForecastWithThawWarning fl svc obs today la lo thr = Inr r \<and>
               ForecastWithThawResult.thawConditions r = [] \<and>
               hasThawConditions r = False))"
proof -
  have 1: "snd (snd (forecast_step fl la today dd (days, acc, thaws) i)) =
             thaws @ thaw_of fl today dd i"
    by (rule forecast_step_thaws)
  have 2: "thaw_of fl today dd i \<noteq> [] \<longleftrightarrow>
      (\<exists>d. map_of dd (dateKey_of (getTime today + i * 86400000)) = Some d \<and>
           temps d \<noteq> [] \<and> 1 \<le> Math_round (Max (set (temps d))) \<and>
           5 \<le> sum_doubles fl (precip d))"
    by (simp add: thaw_of_nonempty Math_round_ge_1)
  have 3: "1 \<le> Math_round m \<longleftrightarrow> 1 / 2 \<le> m"
    by (rule Math_round_ge_1)
  have 4: "\<exists>r. getSnowForecastWithThawWarning fl svc obs today la lo thr = Inr r \<and>
               ForecastWithThawResult.thawConditions r =
                 thaw_of fl today dd 1 @ thaw_of fl today dd 2 @ thaw_of fl today dd 3 \<and>
               hasThawConditions r =
                 (thaw_of fl today dd 1 \<noteq> [] \<or> thaw_of fl today dd 2 \<noteq> [] \<or>
                  thaw_of fl today dd 3 \<noteq> [])"
    if p: "forecast_path svc la lo = Some dd"
  proof -
    obtain depth0 ds a ts where
      f: "foldl (forecast_step fl la today dd) ([], real_of_int depth0, []) [1, 2, 3] = (ds, a, ts)"
      and r: "getSnowForecastWithThawWarning fl svc obs today la lo thr =
                Inr \<lparr>ForecastWithThawResult.forecast = ds,
                     hasThawConditions = (length ts > 0), thawConditions = ts\<rparr>"
      using engine_forecast [OF p, of obs today fl thr] by blast
    have "ts = thaw_of fl today dd 1 @ thaw_of fl today dd 2 @ thaw_of fl today dd 3"
      using forecast_loop_shape(2) [OF f] by simp
    then show ?thesis using r by auto
  qed
  have 5: "\<exists>r. getSnowForecastWithThawWarning fl svc obs today la lo thr = Inr r \<and>
               ForecastWithThawResult.thawConditions r = [] \<and>
               hasThawConditions r = False"
    if "forecast_path svc la lo = None"
    using engine_fallback [OF that, of fl obs today thr] by (simp add: fallback_result_shape)
  show ?thesis using 1 2 3 4 5 by blast
qed

theorem C4_thaw_condition_witness:
  "thaw_of (\<lambda>x. x) january [(1, \<lparr>temps = [1], precip = [5], symbols = []\<rparr>)] 1 =
     [\<lparr>ThawCondition.date = 1, maxTemp = 1, totalPrecip = 5\<rparr>] \<and>
   thaw_of (\<lambda>x. x) january [(1, \<lparr>temps = [1], precip = [5], symbols = []\<rparr>)] 2 = [] \<and>
   thaw_of (\<lambda>x. x) january [(1, \<lparr>temps = [0.9], precip = [5], symbols = []\<rparr>)] 1 \<noteq> [] \<and>
   thaw_of (\<lambda>x. x) january [(1, \<lparr>temps = [0.4], precip = [5], symbols = []\<rparr>)] 1 = [] \<and>
   thaw_of (\<lambda>x. x) january [(1, \<lparr>temps = [1], precip = [4.9], symbols = []\<rparr>)] 1 = [] \<and>
   (\<exists>r. getSnowForecastWithThawWarning (\<lambda>x. x) (forecastSvc thaw_upstream)
          (observed_again thaw_upstream) january (Some 63) (Some 27) (Num 140) = Inr r \<and>
        ForecastWithThawResult.thawConditions r =
          [\<lparr>ThawCondition.date = 1, maxTemp = 1, totalPrecip = 5\<rparr>] \<and>
        hasThawConditions r = True) \<and>
   (\<exists>r. getSnowForecastWithThawWarning (\<lambda>x. x) (forecastSvc all_down)
          (observed_again all_down) january (Some 63) (Some 27) (Num 140) = Inr r \<and>
        ForecastWithThawResult.thawConditions r = [] \<and>
        hasThawConditions r = False)"
proof -
  have t: "thaw_of (\<lambda>x. x) january [(1, \<lparr>temps = [1], precip = [5], symbols = []\<rparr>)] 1 =
             [\<lparr>ThawCondition.date = 1, maxTemp = 1, totalPrecip = 5\<rparr>]"
    "thaw_of (\<lambda>x. x) january [(1, \<lparr>temps = [1], precip = [5], symbols = []\<rparr>)] 2 = []"
    "thaw_of (\<lambda>x. x) january [(1, \<lparr>temps = [1], precip = [5], symbols = []\<rparr>)] 3 = []"
    "thaw_of (\<lambda>x. x) january [(1, \<lparr>temps = [0.4], precip = [5], symbols = []\<rparr>)] 1 = []"
    "thaw_of (\<lambda>x. x) january [(1, \<lparr>temps = [1], precip = [4.9], symbols = []\<rparr>)] 1 = []"
    by (simp_all add: thaw_of_def january_def dateKey_of_def Math_round_def sum_doubles_def)
  have k: "dateKey_of (getTime january + 86400000) = 1"
    by (simp add: january_def dateKey_of_def)
  show ?thesis
    using C4_thaw_condition [where svc = "forecastSvc thaw_upstream" and la = "Some 63" and lo = "Some 27" and fl = "\<lambda>x. x"
            and dd = "[(1, \<lparr>temps = [1], precip = [5], symbols = []\<rparr>)]"
            and today = january and obs = "observed_again thaw_upstream"
            and thr = "Num 140" and i = 1 and m = "0.9" and days = "[]" and acc = 8
            and thaws = "[]"]
      C4_thaw_condition [where svc = "forecastSvc all_down" and la = "Some 63" and lo = "Some 27" and fl = "\<lambda>x. x"
            and dd = "[(1, \<lparr>temps = [0.9], precip = [5], symbols = []\<rparr>)]"
            and today = january and obs = "observed_again all_down"
            and thr = "Num 140" and i = 1 and m = 1 and days = "[]" and acc = 8
            and thaws = "[]"]
      t k
    by (simp add: thaw_upstream_forecast_path all_down_forecast_path)
qed

section \<open>The nearest station\<close>

lemma latest_loop_paired:
  assumes "latest_loop (t0, v0) ms = (t, v)" and "t0 = None \<longleftrightarrow> v0 = None"
  shows "t = None \<longleftrightarrow> v = None"
  using assms
proof (induction ms arbitrary: t0 v0)
  case Nil
  then show ?case by simp
next
  case (Cons m ms)
  show ?case
  proof (cases "tvp_value m")
    case None
    then show ?thesis using Cons by simp
  next
    case (Some x)
    show ?thesis
    proof (cases "0 \<le> x \<and> x < 500")
      case False
      then show ?thesis using Cons Some by auto
    next
      case True
      show ?thesis
      proof (cases t0)
        case None
        then show ?thesis using Cons.prems Some True Cons.IH [of "Some (tvp_time m)" "Some x"]
          by simp
      next
        case t0: (Some a)
        show ?thesis
        proof (cases "date_gt (tvp_time m) a")
          case True': True
          then show ?thesis
            using Cons.prems Some True t0 Cons.IH [of "Some (tvp_time m)" "Some x"] by simp
        next
          case False
          then show ?thesis
            using Cons.prems Some True t0 Cons.IH [of t0 v0] by simp
        qed
      qed
    qed
  qed
qed

lemma latest_loop_keeps:
  assumes "v0 \<noteq> None"
  shows "snd (latest_loop (t0, v0) ms) \<noteq> None"
  using assms
proof (induction ms arbitrary: t0 v0)
  case Nil
  then show ?case by simp
next
  case (Cons m ms)
  then show ?case
    by (auto split: option.split)
qed

lemma latest_loop_none:
  "snd (latest_loop (None, None) ms) = None \<longleftrightarrow> \<not> list_ex valid_measurement ms"
proof (induction ms)
  case Nil
  then show ?case by simp
next
  case (Cons m ms)
  show ?case
  proof (cases "valid_measurement m")
    case True
    then obtain x where x: "tvp_value m = Some x" "0 \<le> x" "x < 500"
      by (auto simp: valid_measurement_def split: option.splits)
    have "snd (latest_loop (Some (tvp_time m), Some x) ms) \<noteq> None"
      by (rule latest_loop_keeps) simp
    then show ?thesis using True x by simp
  next
    case False
    then have "latest_loop (None, None) (m # ms) = latest_loop (None, None) ms"
      by (auto simp: valid_measurement_def split: option.splits)
    then show ?thesis using False Cons by simp
  qed
qed

lemma latest_loop_shape:
  "(if list_ex valid_measurement ms
    then \<exists>t v. latest_loop (None, None) ms = (Some t, Some v)
    else latest_loop (None, None) ms = (None, None))"
proof -
  obtain t v where tv: "latest_loop (None, None) ms = (t, v)"
    by (cases "latest_loop (None, None) ms") auto
  have p: "t = None \<longleftrightarrow> v = None"
    using latest_loop_paired [OF tv] by simp
  have "v = None \<longleftrightarrow> \<not> list_ex valid_measurement ms"
    using latest_loop_none [of ms] tv by simp
  then show ?thesis using tv p by auto
qed

lemma candidate_of_eligible:
  "candidate_of la lo md s \<noteq> None \<longleftrightarrow> eligible la lo md s"
  using latest_loop_shape [of "tvps s"]
  by (auto simp: candidate_of_def eligible_def split: option.splits if_splits)

lemma candidate_of_Some:
  assumes "candidate_of la lo md s = Some (r, d)"
  shows "distance_to la lo s = Some d"
    and "stationName r = Some (case gml_name s of Some n \<Rightarrow> n | None \<Rightarrow> Tuntematon_asema)"
    and "stationDistance r = Some (Some (Math_round d))"
    and "\<exists>t v. latest_loop (None, None) (tvps s) = (Some t, Some v) \<and>
               depth r = Math_round v \<and> updatedAt r = Some t"
  using assms
  by (auto simp: candidate_of_def split: option.splits if_splits prod.splits)

lemma series_loop_Cons:
  "series_loop la lo md (br, bd) (s # ss) =
     series_loop la lo md
       (case candidate_of la lo md s of
          None \<Rightarrow> (br, bd)
        | Some (r, d) \<Rightarrow> if lt_best (Some d) bd then (Some r, Some d) else (br, bd))
       ss"
  by (simp add: candidate_of_def distance_to_def Let_def js_gt_def Math_round_num_def
        split: option.split prod.split)

lemma series_loop_best:
  assumes "series_loop la lo md (br, bd) xs = (br', bd')"
  shows "(bd' = None \<longrightarrow> bd = None \<and> (\<forall>s\<in>set xs. candidate_of la lo md s = None)) \<and>
         (\<forall>d'. bd' = Some d' \<longrightarrow>
            (\<forall>s\<in>set xs. \<forall>r d. candidate_of la lo md s = Some (r, d) \<longrightarrow> d' \<le> d) \<and>
            (\<forall>d0. bd = Some d0 \<longrightarrow> d' \<le> d0)) \<and>
         ((br', bd') = (br, bd) \<or>
          (\<exists>s\<in>set xs. \<exists>r d. candidate_of la lo md s = Some (r, d) \<and>
             br' = Some r \<and> bd' = Some d))"
  using assms
proof (induction xs arbitrary: br bd)
  case Nil
  then show ?case by simp
next
  case (Cons s ss)
  show ?case
  proof (cases "candidate_of la lo md s")
    case None
    then have "series_loop la lo md (br, bd) ss = (br', bd')"
      using Cons.prems by (simp only: series_loop_Cons option.case)
    from Cons.IH [OF this] show ?thesis using None by auto
  next
    case (Some c)
    obtain r d where c: "c = (r, d)" by (cases c)
    show ?thesis
    proof (cases "lt_best (Some d) bd")
      case True
      then have "series_loop la lo md (Some r, Some d) ss = (br', bd')"
        using Cons.prems Some c by (simp only: series_loop_Cons option.case prod.case if_True)
      from Cons.IH [OF this] have
        ih1: "bd' \<noteq> None"
        and ih2: "\<And>d'. bd' = Some d' \<Longrightarrow>
               (\<forall>s\<in>set ss. \<forall>r d. candidate_of la lo md s = Some (r, d) \<longrightarrow> d' \<le> d) \<and> d' \<le> d"
        and ih3: "(br', bd') = (Some r, Some d) \<or>
          (\<exists>s\<in>set ss. \<exists>r d. candidate_of la lo md s = Some (r, d) \<and>
             br' = Some r \<and> bd' = Some d)"
        by auto
      have old: "d' \<le> d0" if "bd' = Some d'" "bd = Some d0" for d' d0
        using ih2 [OF that(1)] True that(2) by simp
      have all: "\<forall>x\<in>set (s # ss). \<forall>r' e. candidate_of la lo md x = Some (r', e) \<longrightarrow> d' \<le> e"
        if "bd' = Some d'" for d'
        using ih2 [OF that] Some c by auto
      have mem: "\<exists>x\<in>set (s # ss). \<exists>r' e. candidate_of la lo md x = Some (r', e) \<and>
             br' = Some r' \<and> bd' = Some e"
        using ih3 Some c by auto
      show ?thesis using ih1 old all mem by blast
    next
      case False
      then obtain d0 where d0: "bd = Some d0" "d0 \<le> d"
        by (cases bd) auto
      have "series_loop la lo md (br, bd) ss = (br', bd')"
        using Cons.prems Some c False
        by (simp only: series_loop_Cons option.case prod.case if_False)
      from Cons.IH [OF this] have
        ih1: "bd' \<noteq> None"
        and ih2: "\<And>d'. bd' = Some d' \<Longrightarrow>
               (\<forall>s\<in>set ss. \<forall>r d. candidate_of la lo md s = Some (r, d) \<longrightarrow> d' \<le> d) \<and> d' \<le> d0"
        and ih3: "(br', bd') = (br, bd) \<or>
          (\<exists>s\<in>set ss. \<exists>r d. candidate_of la lo md s = Some (r, d) \<and>
             br' = Some r \<and> bd' = Some d)"
        using d0 by auto
      have all: "\<forall>x\<in>set (s # ss). \<forall>r' e. candidate_of la lo md x = Some (r', e) \<longrightarrow> d' \<le> e"
        if "bd' = Some d'" for d'
        using ih2 [OF that] Some c d0 by auto
      have old: "d' \<le> e" if "bd' = Some d'" "bd = Some e" for d' e
        using ih2 [OF that(1)] that(2) d0 by simp
      have mem: "(br', bd') = (br, bd) \<or>
          (\<exists>x\<in>set (s # ss). \<exists>r' e. candidate_of la lo md x = Some (r', e) \<and>
             br' = Some r' \<and> bd' = Some e)"
        using ih3 by auto
      show ?thesis using ih1 old all mem by blast
    qed
  qed
qed

lemma parse_selects:
  assumes "\<exists>s\<in>set xs. eligible la lo md s"
  shows "\<exists>s\<in>set xs. \<exists>r d. candidate_of la lo md s = Some (r, d) \<and>
           parseTimeValuePairSnowResponse now xs la lo md = r \<and>
           (\<forall>s'\<in>set xs. \<forall>r' d'. candidate_of la lo md s' = Some (r', d') \<longrightarrow> d \<le> d')"
proof -
  obtain br' bd' where l: "series_loop la lo md (None, None) xs = (br', bd')"
    by (cases "series_loop la lo md (None, None) xs") auto
  note b = series_loop_best [OF l]
  obtain s0 where "s0 \<in> set xs" "candidate_of la lo md s0 \<noteq> None"
    using assms candidate_of_eligible by blast
  then have "bd' \<noteq> None" using b by auto
  then obtain s r d where s: "s \<in> set xs" "candidate_of la lo md s = Some (r, d)"
    "br' = Some r" "bd' = Some d"
    using b by auto
  have "\<forall>s'\<in>set xs. \<forall>r' d'. candidate_of la lo md s' = Some (r', d') \<longrightarrow> d \<le> d'"
    using b s(4) by auto
  moreover have "parseTimeValuePairSnowResponse now xs la lo md = r"
    using l s(3) by (simp add: parseTimeValuePairSnowResponse_def)
  ultimately show ?thesis using s by blast
qed

lemma parse_estimate:
  assumes "\<forall>s\<in>set xs. \<not> eligible la lo md s"
  shows "parseTimeValuePairSnowResponse now xs la lo md = getMockSnowDepthResult now la"
proof -
  obtain br' bd' where l: "series_loop la lo md (None, None) xs = (br', bd')"
    by (cases "series_loop la lo md (None, None) xs") auto
  note b = series_loop_best [OF l]
  have "\<forall>s\<in>set xs. candidate_of la lo md s = None"
    using assms candidate_of_eligible by blast
  then have "(br', bd') = (None, None)" using b by auto
  then show ?thesis using l by (simp add: parseTimeValuePairSnowResponse_def)
qed

lemma candidate_of_eligible_Some:
  assumes "eligible la lo md s" and "distance_to la lo s = Some d"
  shows "\<exists>r. candidate_of la lo md s = Some (r, d)"
proof -
  obtain r d' where c: "candidate_of la lo md s = Some (r, d')"
    using candidate_of_eligible [of la lo md s] assms(1) by auto
  then have "d' = d" using candidate_of_Some(1) [OF c] assms(2) by simp
  then show ?thesis using c by blast
qed

lemma searchStationsInRadius_body:
  assumes "svc (bbox_of la lo radiusKm) = Inr (Response True (Inr xs))"
  shows "searchStationsInRadius svc now la lo radiusKm =
           Inr (if name_truthy (stationName
                     (parseTimeValuePairSnowResponse now xs la lo radiusKm))
                then Some (parseTimeValuePairSnowResponse now xs la lo radiusKm)
                else None)"
  using assms by (simp add: searchStationsInRadius_def try_catch_def await_def Let_def)

lemma half_turn:
  "calculateDistance (Some 0) (Some 0) (Some 0) (Some 180) = Some (6371 * pi)"
  by (simp add: calculateDistance_def Let_def Math_atan2_def)

lemma half_turn_bounds: "0 < 6371 * pi" "6371 * pi \<le> 30000"
  using pi_gt_zero pi_less_4 by simp_all

lemma far_near_parse:
  "parseTimeValuePairSnowResponse now [far_station, near_station] (Some 0) (Some 0) 30000 =
     \<lparr>depth = 30, stationName = Some ''near'', stationDistance = Some (Some 0),
      updatedAt = Some (Some 5)\<rparr>"
  using half_turn_bounds
  by (simp add: parseTimeValuePairSnowResponse_def far_station_def near_station_def
        calculateDistance_same half_turn Let_def Math_round_def Math_round_num_def js_gt_def)

text \<open>
  C7. The box of a search with radius \<open>radiusKm\<close> round the numbers \<open>(lat, lon)\<close>
  reaches \<open>radiusKm / 111\<close> degrees in latitude and
  \<open>radiusKm / (111 * cos (lat * pi / 180))\<close> in longitude, and the search parses the
  answer for its box with the radius as the greatest distance. When some station of the answer is eligible, the parser reports an
  eligible station whose distance is the least among the eligible ones: its name, its
  rounded distance, and the value and time of its latest valid measurement. When none
  is, it returns the seasonal estimate. In the witness the nearer station is the second
  of the answer.
\<close>

theorem C7_nearest_station:
  "bbox_of (Some x) (Some y) radiusKm =
     (Some (y - radiusKm / (111 * cos (x * pi / 180))), Some (x - radiusKm / 111),
      Some (y + radiusKm / (111 * cos (x * pi / 180))), Some (x + radiusKm / 111)) \<and>
   (svc (bbox_of la lo radiusKm) = Inr (Response True (Inr xs))
      \<longrightarrow> searchStationsInRadius svc now la lo radiusKm =
            Inr (if name_truthy (stationName
                      (parseTimeValuePairSnowResponse now xs la lo radiusKm))
                 then Some (parseTimeValuePairSnowResponse now xs la lo radiusKm)
                 else None)) \<and>
   ((\<exists>s\<in>set xs. eligible la lo radiusKm s)
      \<longrightarrow> (\<exists>s\<in>set xs. \<exists>d.
             eligible la lo radiusKm s \<and> distance_to la lo s = Some d \<and>
             (\<forall>s'\<in>set xs. \<forall>d'.
                eligible la lo radiusKm s' \<and> distance_to la lo s' = Some d' \<longrightarrow> d \<le> d') \<and>
             stationName (parseTimeValuePairSnowResponse now xs la lo radiusKm) =
               Some (case gml_name s of Some n \<Rightarrow> n | None \<Rightarrow> Tuntematon_asema) \<and>
             stationDistance (parseTimeValuePairSnowResponse now xs la lo radiusKm) =
               Some (Some (Math_round d)) \<and>
             (\<exists>t v. latest_loop (None, None) (tvps s) = (Some t, Some v) \<and>
                depth (parseTimeValuePairSnowResponse now xs la lo radiusKm) = Math_round v \<and>
                updatedAt (parseTimeValuePairSnowResponse now xs la lo radiusKm) = Some t))) \<and>
   ((\<forall>s\<in>set xs. \<not> eligible la lo radiusKm s)
      \<longrightarrow> parseTimeValuePairSnowResponse now xs la lo radiusKm =
            getMockSnowDepthResult now la)"
proof -
  have 1: "bbox_of (Some x) (Some y) radiusKm =
     (Some (y - radiusKm / (111 * cos (x * pi / 180))), Some (x - radiusKm / 111),
      Some (y + radiusKm / (111 * cos (x * pi / 180))), Some (x + radiusKm / 111))"
    by (simp add: bbox_of_def Let_def num_plus_def num_minus_def)
  have 2: "svc (bbox_of la lo radiusKm) = Inr (Response True (Inr xs))
      \<longrightarrow> searchStationsInRadius svc now la lo radiusKm =
            Inr (if name_truthy (stationName
                      (parseTimeValuePairSnowResponse now xs la lo radiusKm))
                 then Some (parseTimeValuePairSnowResponse now xs la lo radiusKm)
                 else None)"
    using searchStationsInRadius_body [of svc la lo radiusKm xs now] by blast
  have 3: "\<exists>s\<in>set xs. \<exists>d.
             eligible la lo radiusKm s \<and> distance_to la lo s = Some d \<and>
             (\<forall>s'\<in>set xs. \<forall>d'.
                eligible la lo radiusKm s' \<and> distance_to la lo s' = Some d' \<longrightarrow> d \<le> d') \<and>
             stationName (parseTimeValuePairSnowResponse now xs la lo radiusKm) =
               Some (case gml_name s of Some n \<Rightarrow> n | None \<Rightarrow> Tuntematon_asema) \<and>
             stationDistance (parseTimeValuePairSnowResponse now xs la lo radiusKm) =
               Some (Some (Math_round d)) \<and>
             (\<exists>t v. latest_loop (None, None) (tvps s) = (Some t, Some v) \<and>
                depth (parseTimeValuePairSnowResponse now xs la lo radiusKm) = Math_round v \<and>
                updatedAt (parseTimeValuePairSnowResponse now xs la lo radiusKm) = Some t)"
    if e: "\<exists>s\<in>set xs. eligible la lo radiusKm s"
  proof -
    obtain s r d where s: "s \<in> set xs" and c: "candidate_of la lo radiusKm s = Some (r, d)"
      and p: "parseTimeValuePairSnowResponse now xs la lo radiusKm = r"
      and least: "\<forall>s'\<in>set xs. \<forall>r' d'.
                    candidate_of la lo radiusKm s' = Some (r', d') \<longrightarrow> d \<le> d'"
      using parse_selects [OF e, of now] by blast
    have el: "eligible la lo radiusKm s"
      using candidate_of_eligible [of la lo radiusKm s] c by simp
    have "d \<le> d'"
      if "s' \<in> set xs" "eligible la lo radiusKm s'" "distance_to la lo s' = Some d'" for s' d'
      using candidate_of_eligible_Some [OF that(2,3)] least that(1) by blast
    then show ?thesis
      using s el p candidate_of_Some [OF c] by blast
  qed
  have 4: "(\<forall>s\<in>set xs. \<not> eligible la lo radiusKm s)
      \<longrightarrow> parseTimeValuePairSnowResponse now xs la lo radiusKm =
            getMockSnowDepthResult now la"
    using parse_estimate [of xs la lo radiusKm now] by blast
  show ?thesis using 1 2 3 4 by blast
qed

theorem C7_nearest_station_witness:
  "eligible (Some 0) (Some 0) 30000 far_station \<and>
   eligible (Some 0) (Some 0) 30000 near_station \<and>
   distance_to (Some 0) (Some 0) far_station = Some (6371 * pi) \<and>
   distance_to (Some 0) (Some 0) near_station = Some 0 \<and>
   parseTimeValuePairSnowResponse january [far_station, near_station] (Some 0) (Some 0) 30000 =
     \<lparr>depth = 30, stationName = Some ''near'', stationDistance = Some (Some 0),
      updatedAt = Some (Some 5)\<rparr> \<and>
   searchStationsInRadius (\<lambda>b. Inr (Response True (Inr [far_station, near_station])))
       january (Some 0) (Some 0) 30000 =
     Inr (Some \<lparr>depth = 30, stationName = Some ''near'', stationDistance = Some (Some 0),
                updatedAt = Some (Some 5)\<rparr>) \<and>
   parseTimeValuePairSnowResponse january [] (Some 0) (Some 0) 30000 =
     getMockSnowDepthResult january (Some 0)"
proof -
  have e: "eligible (Some 0) (Some 0) 30000 far_station"
    "eligible (Some 0) (Some 0) 30000 near_station"
    using half_turn_bounds
    by (simp_all add: eligible_def distance_to_def far_station_def near_station_def
          valid_measurement_def calculateDistance_same half_turn)
  have d: "distance_to (Some 0) (Some 0) far_station = Some (6371 * pi)"
    "distance_to (Some 0) (Some 0) near_station = Some 0"
    by (simp_all add: distance_to_def far_station_def near_station_def half_turn
          calculateDistance_same)
  show ?thesis
    using C7_nearest_station [where x = 0 and y = 0 and radiusKm = 30000
            and svc = "\<lambda>b. Inr (Response True (Inr [far_station, near_station]))"
            and xs = "[far_station, near_station]" and now = january
            and la = "Some 0" and lo = "Some 0"]
      C7_nearest_station [where x = 0 and y = 0 and radiusKm = 30000
            and svc = "\<lambda>b. Inl NetworkError" and xs = "[]" and now = january
            and la = "Some 0" and lo = "Some 0"]
    by (simp add: e d far_near_parse name_truthy_def)
qed

end
